theory Spec2Isabelle
  imports Complex_Main
begin

section \<open>Conventions\<close>

text \<open>
  Monetary amounts are JavaScript numbers in the source. They are modelled as exact
  rationals, so the rounding of binary floating point is outside this development.
  Console output is not part of the modelled state.

  Several interfaces of the source share field names (\<open>date\<close>, \<open>amount\<close>,
  \<open>customer\<close>, ...). Each record keeps the names of the source; where two records
  share a name, a field is written with the name of its record, as in
  \<open>Invoice.date invoice\<close>.
\<close>

type_synonym object_id = string

datatype PaymentType = ADVANCE | RECEIPT | PAYMENT

datatype THNStatus = UNPAID | PARTIALLY_PAID | PAID

section \<open>Ledger service: data model (types.ts, types/ledger.ts)\<close>

text \<open>
  The ledger service reads a date string only through \<open>new Date(s)\<close> and compares the
  two instants. A date is therefore represented by the instant it denotes, in
  milliseconds since the epoch; strings that do not parse are outside the model, and an
  absent or empty optional date string is \<open>None\<close>.

  Only the fields that the ledger computation reads are kept. The descriptive text of an
  entry (\<open>particulars\<close>, \<open>voucherNumber\<close>, \<open>reference\<close>, \<open>customerName\<close>,
  \<open>notes\<close>) is built from locale-dependent number formatting and is not modelled.
\<close>

type_synonym instant = int

record Customer =
  cust_id :: string
  name :: string

record Invoice =
  invoiceNumber :: nat
  date :: instant
  customer :: "Customer option"
  grandTotal :: rat

record Payment =
  pay_id :: string
  invoiceId :: "string option"
  truckHiringNoteId :: "string option"
  customerId :: "string option"
  customer :: "Customer option"
  date :: instant
  amount :: rat
  type :: PaymentType
  mode :: string
  referenceNo :: "string option"
  tdsApplicable :: "bool option"
  tdsRate :: "rat option"
  tdsAmount :: "rat option"
  tdsDate :: "instant option"

record TruckHiringNote =
  thnNumber :: nat
  date :: instant
  truckOwnerName :: string
  freightRate :: rat

record LedgerFilters =
  startDate :: "instant option"
  endDate :: "instant option"
  customerId :: "string option"
  voucherType :: "string option"
  minAmount :: "rat option"
  maxAmount :: "rat option"

datatype BalanceType = DR | CR

text \<open>
  \<open>CompanyLedgerEntry\<close> and \<open>ClientLedgerEntry\<close>. The client entry has the modelled
  fields of the company entry and two more, so it is declared as its extension; the
  running balance of both ledgers is then one function.
\<close>

record CompanyLedgerEntry =
  date :: instant
  debit :: rat
  credit :: rat
  balance :: rat
  balanceType :: BalanceType

record ClientLedgerEntry = CompanyLedgerEntry +
  voucherType :: string
  paymentMode :: "string option"

record LedgerSummary =
  openingBalance :: rat
  openingBalanceType :: BalanceType
  totalDebits :: rat
  totalCredits :: rat
  closingBalance :: rat
  closingBalanceType :: BalanceType
  transactionCount :: nat

record ClientLedgerData =
  customerId :: string
  customerName :: string
  openingBalance :: rat
  openingBalanceType :: BalanceType
  transactions :: "ClientLedgerEntry list"
  summary :: LedgerSummary

record CompanySummary =
  totalRevenue :: rat
  totalExpenses :: rat
  netProfit :: rat
  totalAssets :: rat
  totalLiabilities :: rat

record CompanyLedgerData =
  period_startDate :: instant
  period_endDate :: instant
  transactions :: "CompanyLedgerEntry list"
  summary :: CompanySummary

section \<open>Ledger service: LedgerService (services/ledgerService.ts)\<close>

text \<open>
  The running balance: \<open>let runningBalance = 0; entries.map(entry => ...)\<close>. The
  first argument is the value of \<open>runningBalance\<close> before the entry.
\<close>

fun runningBalances ::
  "rat \<Rightarrow> ('a CompanyLedgerEntry_scheme) list \<Rightarrow> ('a CompanyLedgerEntry_scheme) list" where
  "runningBalances rb [] = []"
| "runningBalances rb (entry # rest) =
     (let runningBalance = rb + (debit entry - credit entry)
      in entry\<lparr>balance := \<bar>runningBalance\<bar>,
               balanceType := (if runningBalance \<ge> 0 then DR else CR)\<rparr>
         # runningBalances runningBalance rest)"

text \<open>
  \<open>entries.sort((a, b) => new Date(a.date).getTime() - new Date(b.date).getTime())\<close>:
  \<open>Array.prototype.sort\<close> is stable, and so is the insertion sort \<open>sort_key\<close>.
\<close>

definition sortByDate :: "('a CompanyLedgerEntry_scheme) list \<Rightarrow> ('a CompanyLedgerEntry_scheme) list" where
  "sortByDate entries = sort_key CompanyLedgerEntry.date entries"

subsection \<open>generateClientLedger\<close>

text \<open>
  \<open>!filters || !filters.startDate || new Date(d) >= new Date(filters.startDate)\<close>.
\<close>

definition clientDateOk :: "LedgerFilters option \<Rightarrow> instant \<Rightarrow> bool" where
  "clientDateOk filters d =
     (case filters of
        None \<Rightarrow> True
      | Some f \<Rightarrow> (case startDate f of None \<Rightarrow> True | Some s \<Rightarrow> d \<ge> s))"

definition clientInvoiceEntries :: "LedgerFilters option \<Rightarrow> Invoice \<Rightarrow> ClientLedgerEntry list" where
  "clientInvoiceEntries filters invoice =
     (if clientDateOk filters (Invoice.date invoice)
      then [\<lparr>CompanyLedgerEntry.date = Invoice.date invoice,
             debit = grandTotal invoice,
             credit = 0,
             balance = 0,
             balanceType = DR,
             voucherType = ''INVOICE'',
             paymentMode = None\<rparr>]
      else [])"

definition clientPaymentEntries :: "LedgerFilters option \<Rightarrow> Payment \<Rightarrow> ClientLedgerEntry list" where
  "clientPaymentEntries filters payment =
     (if clientDateOk filters (Payment.date payment)
      then [\<lparr>CompanyLedgerEntry.date = Payment.date payment,
             debit = 0,
             credit = Payment.amount payment,
             balance = 0,
             balanceType = CR,
             voucherType = (if Payment.type payment = ADVANCE then ''ADVANCE'' else ''PAYMENT''),
             paymentMode = Some (Payment.mode payment)\<rparr>]
      else [])"

text \<open>The array \<open>entries\<close> after the two \<open>forEach\<close> loops, before it is sorted.\<close>

definition clientEntries ::
  "string \<Rightarrow> Invoice list \<Rightarrow> Payment list \<Rightarrow> LedgerFilters option \<Rightarrow> ClientLedgerEntry list" where
  "clientEntries custId invoices payments filters =
     (let customerInvoices =
            filter (\<lambda>iv. map_option cust_id (Invoice.customer iv) = Some custId) invoices;
          customerPayments =
            filter (\<lambda>p. case Payment.customerId p of
                           Some c \<Rightarrow> c = custId
                         | None \<Rightarrow> map_option cust_id (Payment.customer p) = Some custId)
                   payments
      in concat (map (clientInvoiceEntries filters) customerInvoices)
         @ concat (map (clientPaymentEntries filters) customerPayments))"

definition generateClientLedger ::
  "string \<Rightarrow> Customer \<Rightarrow> Invoice list \<Rightarrow> Payment list \<Rightarrow> TruckHiringNote list
     \<Rightarrow> LedgerFilters option \<Rightarrow> ClientLedgerData" where
  "generateClientLedger custId cust invoices payments truckHiringNotes filters =
     (let entries = sortByDate (clientEntries custId invoices payments filters);
          processedEntries = runningBalances 0 entries;
          summary = \<lparr>LedgerSummary.openingBalance = 0,
                     LedgerSummary.openingBalanceType = DR,
                     totalDebits = foldl (\<lambda>sum entry. sum + debit entry) 0 processedEntries,
                     totalCredits = foldl (\<lambda>sum entry. sum + credit entry) 0 processedEntries,
                     closingBalance =
                       (if length processedEntries > 0 then balance (last processedEntries) else 0),
                     closingBalanceType =
                       (if length processedEntries > 0 then balanceType (last processedEntries)
                        else DR),
                     transactionCount = length processedEntries\<rparr>
      in \<lparr>ClientLedgerData.customerId = custId,
          customerName = Customer.name cust,
          ClientLedgerData.openingBalance = 0,
          ClientLedgerData.openingBalanceType = DR,
          ClientLedgerData.transactions = processedEntries,
          ClientLedgerData.summary = summary\<rparr>)"

subsection \<open>generateCompanyLedger\<close>

text \<open>
  The default period. \<open>new Date(t).toISOString().split('T')[0]\<close> is the UTC day of the
  instant \<open>t\<close>, and \<open>new Date\<close> of that day string is its midnight. The clock is read
  once, as \<open>now\<close>.
\<close>

definition msPerDay :: int where
  "msPerDay = 24 * 60 * 60 * 1000"

definition utcDay :: "instant \<Rightarrow> instant" where
  "utcDay t = (t div msPerDay) * msPerDay"

definition periodStart :: "instant \<Rightarrow> LedgerFilters option \<Rightarrow> instant" where
  "periodStart now filters =
     (case filters of
        None \<Rightarrow> utcDay (now - 365 * msPerDay)
      | Some f \<Rightarrow> (case startDate f of None \<Rightarrow> utcDay (now - 365 * msPerDay) | Some s \<Rightarrow> s))"

definition periodEnd :: "instant \<Rightarrow> LedgerFilters option \<Rightarrow> instant" where
  "periodEnd now filters =
     (case filters of
        None \<Rightarrow> utcDay now
      | Some f \<Rightarrow> (case endDate f of None \<Rightarrow> utcDay now | Some e \<Rightarrow> e))"

text \<open>\<open>new Date(d) >= new Date(startDate) && new Date(d) <= new Date(endDate)\<close>.\<close>

definition inPeriod :: "instant \<Rightarrow> instant \<Rightarrow> instant \<Rightarrow> bool" where
  "inPeriod start finish d = (d \<ge> start \<and> d \<le> finish)"

definition entry :: "instant \<Rightarrow> rat \<Rightarrow> rat \<Rightarrow> BalanceType \<Rightarrow> CompanyLedgerEntry" where
  "entry d dr cr side =
     \<lparr>CompanyLedgerEntry.date = d, debit = dr, credit = cr, balance = 0, balanceType = side\<rparr>"

definition companyInvoiceEntries :: "instant \<Rightarrow> instant \<Rightarrow> Invoice \<Rightarrow> CompanyLedgerEntry list" where
  "companyInvoiceEntries start finish invoice =
     (if inPeriod start finish (Invoice.date invoice)
      then [entry (Invoice.date invoice) 0 (grandTotal invoice) CR,
            entry (Invoice.date invoice) (grandTotal invoice) 0 DR]
      else [])"

text \<open>
  \<open>payment.tdsApplicable && payment.type === PaymentType.RECEIPT && payment.tdsAmount
  && payment.tdsAmount > 0\<close>.
\<close>

definition hasTDS :: "Payment \<Rightarrow> bool" where
  "hasTDS payment =
     (Payment.tdsApplicable payment = Some True \<and> Payment.type payment = RECEIPT
      \<and> (case Payment.tdsAmount payment of None \<Rightarrow> False | Some t \<Rightarrow> t \<noteq> 0 \<and> t > 0))"

definition companyPaymentEntries :: "instant \<Rightarrow> instant \<Rightarrow> Payment \<Rightarrow> CompanyLedgerEntry list" where
  "companyPaymentEntries start finish payment =
     (if inPeriod start finish (Payment.date payment)
      then
        if Payment.type payment = ADVANCE
        then [entry (Payment.date payment) 0 (Payment.amount payment) CR,
              entry (Payment.date payment) (Payment.amount payment) 0 DR]
        else
          let grossAmount =
                (if hasTDS payment
                 then (case Payment.tdsAmount payment of
                         None \<Rightarrow> Payment.amount payment
                       | Some t \<Rightarrow> Payment.amount payment + t)
                 else Payment.amount payment);
              netAmount = Payment.amount payment
          in [entry (Payment.date payment) netAmount 0 DR]
             @ (if hasTDS payment
                then [entry (case Payment.tdsDate payment of
                               None \<Rightarrow> Payment.date payment
                             | Some td \<Rightarrow> td)
                            0
                            (case Payment.tdsAmount payment of None \<Rightarrow> 0 | Some t \<Rightarrow> t)
                            CR]
                else [])
             @ [entry (Payment.date payment) 0 grossAmount CR]
      else [])"

definition companyThnEntries :: "instant \<Rightarrow> instant \<Rightarrow> TruckHiringNote \<Rightarrow> CompanyLedgerEntry list" where
  "companyThnEntries start finish thn =
     (if inPeriod start finish (TruckHiringNote.date thn)
      then [entry (TruckHiringNote.date thn) (TruckHiringNote.freightRate thn) 0 DR,
            entry (TruckHiringNote.date thn) 0 (TruckHiringNote.freightRate thn) CR]
      else [])"

text \<open>The array \<open>entries\<close> after the three \<open>forEach\<close> loops, before it is sorted.\<close>

definition companyEntries ::
  "instant \<Rightarrow> instant \<Rightarrow> Invoice list \<Rightarrow> Payment list \<Rightarrow> TruckHiringNote list
     \<Rightarrow> CompanyLedgerEntry list" where
  "companyEntries start finish invoices payments truckHiringNotes =
     concat (map (companyInvoiceEntries start finish) invoices)
     @ concat (map (companyPaymentEntries start finish) payments)
     @ concat (map (companyThnEntries start finish) truckHiringNotes)"

definition generateCompanyLedger ::
  "instant \<Rightarrow> Customer list \<Rightarrow> Invoice list \<Rightarrow> Payment list \<Rightarrow> TruckHiringNote list
     \<Rightarrow> LedgerFilters option \<Rightarrow> CompanyLedgerData" where
  "generateCompanyLedger now customers invoices payments truckHiringNotes filters =
     (let startDate = periodStart now filters;
          endDate = periodEnd now filters;
          entries = sortByDate (companyEntries startDate endDate invoices payments truckHiringNotes);
          processedEntries = runningBalances 0 entries;
          totalRevenue = foldl (\<lambda>sum iv. sum + grandTotal iv) 0 invoices;
          totalExpenses = foldl (\<lambda>sum thn. sum + TruckHiringNote.freightRate thn) 0 truckHiringNotes;
          netProfit = totalRevenue - totalExpenses
      in \<lparr>period_startDate = startDate,
          period_endDate = endDate,
          CompanyLedgerData.transactions = processedEntries,
          CompanyLedgerData.summary =
            \<lparr>totalRevenue = totalRevenue,
             totalExpenses = totalExpenses,
             netProfit = netProfit,
             totalAssets = 0,
             totalLiabilities = 0\<rparr>\<rparr>)"

subsection \<open>Notions used to state the properties of the ledgers\<close>

text \<open>Everything an entry says apart from its running balance.\<close>

definition entryContent :: "'a CompanyLedgerEntry_scheme \<Rightarrow> instant \<times> rat \<times> rat \<times> 'a" where
  "entryContent e =
     (CompanyLedgerEntry.date e, debit e, credit e, CompanyLedgerEntry.more e)"

text \<open>The sum of debit minus credit over the entries at the positions \<open>0, ..., i\<close>.\<close>

definition prefixSum :: "('a CompanyLedgerEntry_scheme) list \<Rightarrow> nat \<Rightarrow> rat" where
  "prefixSum ts i = sum_list (map (\<lambda>e. debit e - credit e) (take (Suc i) ts))"

text \<open>The start date and the end date that a caller passed, if any.\<close>

definition filterStart :: "LedgerFilters option \<Rightarrow> instant option" where
  "filterStart filters = (case filters of None \<Rightarrow> None | Some f \<Rightarrow> startDate f)"

definition filterEnd :: "LedgerFilters option \<Rightarrow> instant option" where
  "filterEnd filters = (case filters of None \<Rightarrow> None | Some f \<Rightarrow> endDate f)"

section \<open>Backend: data model\<close>

text \<open>
  The fields of a validated truck hiring note request that the controllers read
  (\<open>createTruckHiringNoteSchema\<close>); the remaining fields of the schema are descriptive
  strings that are copied into the stored document unchanged. In the backend a date is
  the string of the request.
\<close>

record THNData =
  date :: string
  truckOwnerName :: string
  freightRate :: rat
  advanceAmount :: "rat option"
  paymentMode :: string
  additionalCharges :: "rat option"

text \<open>
  A stored truck hiring note: \<open>new TruckHiringNote({thnNumber, ...noteData, ...})\<close>
  spreads the request data into the document and adds the computed fields.
\<close>

record TruckHiringNoteDoc = THNData +
  thnNumber :: nat
  balanceAmount :: rat
  status :: THNStatus
  paidAmount :: rat
  payments :: "object_id list"

text \<open>
  The body of a payment request, read field by field: a field is \<open>None\<close> when it is
  absent or not of the JSON type that the schema expects.
\<close>

record PaymentPayload =
  invoiceId :: "string option"
  truckHiringNoteId :: "string option"
  customer :: "string option"
  amount :: "rat option"
  date :: "string option"
  type :: "string option"
  mode :: "string option"
  referenceNo :: "string option"
  notes_text :: "string option"
  tdsApplicable :: "bool option"
  tdsRate :: "rat option"
  tdsAmount :: "rat option"
  tdsDate :: "string option"

text \<open>The fields of a payment after \<open>createPaymentSchema.parse\<close>.\<close>

record PaymentData =
  invoiceId :: "object_id option"
  truckHiringNoteId :: "object_id option"
  customer :: "string option"
  amount :: rat
  date :: string
  type :: PaymentType
  mode :: string
  referenceNo :: "string option"
  notes_text :: "string option"
  tdsApplicable :: "bool option"
  tdsRate :: "rat option"
  tdsAmount :: "rat option"
  tdsDate :: "string option"

text \<open>A stored payment: the payment data with its \<open>_id\<close> and its \<open>paymentNumber\<close>.\<close>

record PaymentDoc = PaymentData +
  doc_id :: object_id
  paymentNumber :: nat

text \<open>
  The persistent store: the TruckHiringNote collection keyed by \<open>_id\<close>, the Payment
  collection in insertion order, and the NumberingConfig collection keyed by its
  \<open>type\<close> with the \<open>currentNumber\<close> as value. The Invoice collection is written by
  \<open>utils/invoiceUtils\<close>, which is not among the sources, and is not part of the state.
\<close>

record db =
  TruckHiringNote_coll :: "object_id \<rightharpoonup> TruckHiringNoteDoc"
  Payment_coll :: "PaymentDoc list"
  NumberingConfig_coll :: "string \<rightharpoonup> nat"

text \<open>
  Every call to the store may throw. A fault oracle says, for the \<open>k\<close>-th store call of a
  controller function (counted in program order from 0), whether it throws.
\<close>

type_synonym faults = "nat \<Rightarrow> bool"

datatype error = StoreError

definition no_faults :: faults where
  "no_faults k = False"

section \<open>Backend: THN status recomputation (paymentController.ts, updateThnStatus)\<close>

text \<open>\<open>x || 0\<close> on an optional number.\<close>

definition orZero :: "rat option \<Rightarrow> rat" where
  "orZero x = (case x of None \<Rightarrow> 0 | Some v \<Rightarrow> v)"

text \<open>
  \<open>Payment.aggregate([{$match: {truckHiringNoteId}}, {$group: {_id: null, total: {$sum: '$amount'}}}])\<close>:
  the result array is empty when no payment matches and holds the one total otherwise.
\<close>

definition aggregateTotal :: "object_id \<Rightarrow> PaymentDoc list \<Rightarrow> rat list" where
  "aggregateTotal thnId ps =
     (let matched = filter (\<lambda>p. truckHiringNoteId p = Some thnId) ps
      in if matched = [] then [] else [sum_list (map amount matched)])"

text \<open>\<open>Payment.findOne({truckHiringNoteId, type: PaymentType.ADVANCE})\<close>.\<close>

definition findAdvancePayment :: "object_id \<Rightarrow> PaymentDoc list \<Rightarrow> PaymentDoc option" where
  "findAdvancePayment thnId ps =
     find (\<lambda>p. truckHiringNoteId p = Some thnId \<and> type p = ADVANCE) ps"

text \<open>\<open>TruckHiringNote.findByIdAndUpdate(id, fields)\<close>: no document, no change.\<close>

definition findByIdAndUpdate ::
  "object_id \<Rightarrow> (TruckHiringNoteDoc \<Rightarrow> TruckHiringNoteDoc) \<Rightarrow> db \<Rightarrow> db" where
  "findByIdAndUpdate thnId upd d =
     (case TruckHiringNote_coll d thnId of
        None \<Rightarrow> d
      | Some t \<Rightarrow> d\<lparr>TruckHiringNote_coll := (TruckHiringNote_coll d)(thnId \<mapsto> upd t)\<rparr>)"

text \<open>The body of the \<open>try\<close> block of \<open>updateThnStatus\<close>; \<open>Inl\<close> is a thrown error.\<close>

definition updateThnStatus_try :: "faults \<Rightarrow> object_id \<Rightarrow> db \<Rightarrow> error + db" where
  "updateThnStatus_try fails thnId d =
     (if fails 0 then Inl StoreError
      else case TruckHiringNote_coll d thnId of
        None \<Rightarrow> Inr d
      | Some thn \<Rightarrow>
          if fails 1 then Inl StoreError
          else
            let totalPaid = aggregateTotal thnId (Payment_coll d);
                paidAmount = (if length totalPaid > 0 then hd totalPaid else 0);
                totalAmount = freightRate thn + orZero (additionalCharges thn)
            in if fails 2 then Inl StoreError
               else
                 let advancePaymentExists = findAdvancePayment thnId (Payment_coll d);
                     totalPaidAmount =
                       (if advancePaymentExists \<noteq> None then paidAmount
                        else paidAmount + orZero (advanceAmount thn));
                     balanceAmount = max 0 (totalAmount - totalPaidAmount);
                     status =
                       (if balanceAmount \<le> 0 then PAID
                        else if totalPaidAmount > 0 then PARTIALLY_PAID
                        else UNPAID)
                 in if fails 3 then Inl StoreError
                    else Inr (findByIdAndUpdate thnId
                                (\<lambda>t. t\<lparr>paidAmount := totalPaidAmount,
                                         balanceAmount := balanceAmount,
                                         status := status\<rparr>) d))"

text \<open>\<open>updateThnStatus\<close>: the \<open>catch\<close> logs the error and the function returns.\<close>

definition updateThnStatus :: "faults \<Rightarrow> object_id \<Rightarrow> db \<Rightarrow> error + db" where
  "updateThnStatus fails thnId d =
     (case updateThnStatus_try fails thnId d of
        Inl e \<Rightarrow> Inr d
      | Inr d' \<Rightarrow> Inr d')"

text \<open>
  \<open>getTruckHiringNotes\<close> recomputes every note with
  \<open>await Promise.all(notes.map(note => updateThnStatus(note._id)))\<close>, which rejects as
  soon as one call rejects. Each call writes its own note only and no call writes a
  payment, so the calls are modelled one after the other in list order.
\<close>

fun recomputeAll :: "(object_id \<Rightarrow> faults) \<Rightarrow> object_id list \<Rightarrow> db \<Rightarrow> error + db" where
  "recomputeAll fails [] d = Inr d"
| "recomputeAll fails (i # ids) d =
     (case updateThnStatus (fails i) i d of
        Inl e \<Rightarrow> Inl e
      | Inr d' \<Rightarrow> recomputeAll fails ids d')"

text \<open>The stored note read back from the outcome of a controller function.\<close>

definition storedThn :: "error + db \<Rightarrow> object_id \<Rightarrow> TruckHiringNoteDoc option" where
  "storedThn r thnId = (case r of Inl e \<Rightarrow> None | Inr d \<Rightarrow> TruckHiringNote_coll d thnId)"

text \<open>The sum of the amounts of the payments linked to a note.\<close>

definition linkedSum :: "object_id \<Rightarrow> PaymentDoc list \<Rightarrow> rat" where
  "linkedSum thnId ps = sum_list (map amount (filter (\<lambda>p. truckHiringNoteId p = Some thnId) ps))"

section \<open>Backend: creating a truck hiring note (truckHiringNoteController.ts)\<close>

text \<open>A number inside a template literal: its decimal digits.\<close>

definition digitChar :: "nat \<Rightarrow> char" where
  "digitChar n = ''0123456789'' ! (n mod 10)"

fun decimal :: "nat \<Rightarrow> string" where
  "decimal n = (if n < 10 then [digitChar n] else decimal (n div 10) @ [digitChar n])"

declare decimal.simps [simp del]

text \<open>The reference of the synthesized advance payment, \<open>`THN-${thnNumber}-ADVANCE`\<close>.\<close>

definition advanceReference :: "nat \<Rightarrow> string" where
  "advanceReference n = ''THN-'' @ decimal n @ ''-ADVANCE''"

text \<open>
  The query of \<open>updateTruckHiringNote\<close> for the synthesized advance payment:
  \<open>Payment.findOne({truckHiringNoteId, type: PaymentType.ADVANCE, referenceNo: `THN-${thnNumber}-ADVANCE`})\<close>.
\<close>

definition findTaggedAdvancePayment :: "object_id \<Rightarrow> nat \<Rightarrow> PaymentDoc list \<Rightarrow> PaymentDoc option" where
  "findTaggedAdvancePayment thnId n ps =
     find (\<lambda>p. truckHiringNoteId p = Some thnId \<and> type p = ADVANCE
                \<and> referenceNo p = Some (advanceReference n)) ps"

text \<open>
  \<open>createTruckHiringNoteSchema\<close> on the modelled fields: \<open>z.string().min(1)\<close> and
  \<open>z.number().nonnegative()\<close>, the latter optional for the advance and the additional
  charges.
\<close>

definition nonnegativeOptional :: "rat option \<Rightarrow> bool" where
  "nonnegativeOptional x = (case x of None \<Rightarrow> True | Some v \<Rightarrow> v \<ge> 0)"

definition createTruckHiringNoteSchema :: "THNData \<Rightarrow> bool" where
  "createTruckHiringNoteSchema noteData =
     (length (THNData.date noteData) \<ge> 1
      \<and> length (truckOwnerName noteData) \<ge> 1
      \<and> freightRate noteData \<ge> 0
      \<and> nonnegativeOptional (advanceAmount noteData)
      \<and> length (paymentMode noteData) \<ge> 1
      \<and> nonnegativeOptional (additionalCharges noteData))"

text \<open>
  Minting a number, as each controller does in line: the fallback is \<open>Date.now()\<close>;
  a configuration of the given type yields its \<open>currentNumber\<close> and is saved
  incremented. The two store calls are the calls \<open>k\<close> and \<open>k + 1\<close> of the controller.
\<close>

definition nextNumber :: "faults \<Rightarrow> nat \<Rightarrow> nat \<Rightarrow> string \<Rightarrow> db \<Rightarrow> error + (nat \<times> db)" where
  "nextNumber fails k now ty d =
     (if fails k then Inl StoreError
      else case NumberingConfig_coll d ty of
        None \<Rightarrow> Inr (now, d)
      | Some currentNumber \<Rightarrow>
          if fails (k + 1) then Inl StoreError
          else Inr (currentNumber,
                    d\<lparr>NumberingConfig_coll := (NumberingConfig_coll d)(ty \<mapsto> currentNumber + 1)\<rparr>))"

text \<open>
  What a controller answers: the document was created (status 201), the request was
  rejected before anything was written (status 400), or an error thrown later was turned
  into an error response.
\<close>

datatype response = Created | ValidationFailed | Failed

text \<open>
  The inner \<open>try\<close> of \<open>createTruckHiringNote\<close> that synthesizes the advance payment.
  Its \<open>catch\<close> only logs, so the result is the store as the last successful call left it.
\<close>

definition createAdvancePayment ::
  "faults \<Rightarrow> nat \<Rightarrow> object_id \<Rightarrow> object_id \<Rightarrow> THNData \<Rightarrow> nat \<Rightarrow> rat \<Rightarrow> db \<Rightarrow> db" where
  "createAdvancePayment fails now noteId paymentId noteData thnNo advance d =
     (case nextNumber fails 3 now ''paymentId'' d of
        Inl e \<Rightarrow> d
      | Inr (number, d1) \<Rightarrow>
          let advancePayment =
                \<lparr>PaymentData.invoiceId = None,
                 truckHiringNoteId = Some noteId,
                 customer = None,
                 amount = advance,
                 date = THNData.date noteData,
                 type = ADVANCE,
                 mode = (if paymentMode noteData = [] then ''Cash'' else paymentMode noteData),
                 referenceNo = Some (advanceReference thnNo),
                 notes_text = Some (''Advance payment for THN #'' @ decimal thnNo),
                 tdsApplicable = None,
                 tdsRate = None,
                 tdsAmount = None,
                 tdsDate = None,
                 doc_id = paymentId,
                 paymentNumber = number\<rparr>
          in if fails 5 then d1
             else
               let d2 = d1\<lparr>Payment_coll := Payment_coll d1 @ [advancePayment]\<rparr>
               in if fails 6 then d2
                  else findByIdAndUpdate noteId (\<lambda>t. t\<lparr>payments := payments t @ [paymentId]\<rparr>) d2)"

text \<open>
  \<open>createTruckHiringNote\<close>. \<open>now1\<close> and \<open>now2\<close> are the two readings of \<open>Date.now()\<close>,
  \<open>noteId\<close> and \<open>paymentId\<close> the identifiers that the store assigns to the new note and
  to the new payment. The store calls are, in order: 0 and 1 mint the THN number, 2 saves
  the note, 3 and 4 mint the payment number, 5 saves the advance payment, 6 pushes it onto
  the note, 7 reads the note back.
\<close>

definition createTruckHiringNote ::
  "faults \<Rightarrow> nat \<Rightarrow> nat \<Rightarrow> object_id \<Rightarrow> object_id \<Rightarrow> THNData \<Rightarrow> db \<Rightarrow> response \<times> db" where
  "createTruckHiringNote fails now1 now2 noteId paymentId noteData d =
     (if \<not> createTruckHiringNoteSchema noteData then (ValidationFailed, d)
      else case nextNumber fails 0 now1 ''truckHiringNoteId'' d of
        Inl e \<Rightarrow> (Failed, d)
      | Inr (nextThnNumber, d1) \<Rightarrow>
          let totalAmount = freightRate noteData + orZero (additionalCharges noteData);
              advanceAmount = orZero (advanceAmount noteData);
              balanceAmount = max 0 (totalAmount - advanceAmount);
              initialStatus =
                (if balanceAmount \<le> 0 then PAID
                 else if advanceAmount > 0 then PARTIALLY_PAID
                 else UNPAID);
              note =
                \<lparr>THNData.date = THNData.date noteData,
                 truckOwnerName = truckOwnerName noteData,
                 freightRate = freightRate noteData,
                 advanceAmount = Some advanceAmount,
                 paymentMode = paymentMode noteData,
                 additionalCharges = Some (orZero (additionalCharges noteData)),
                 thnNumber = nextThnNumber,
                 balanceAmount = balanceAmount,
                 status = initialStatus,
                 paidAmount = advanceAmount,
                 payments = []\<rparr>
          in if fails 2 then (Failed, d1)
             else
               let d2 = d1\<lparr>TruckHiringNote_coll := (TruckHiringNote_coll d1)(noteId \<mapsto> note)\<rparr>;
                   d3 = (if advanceAmount > 0
                         then createAdvancePayment fails now2 noteId paymentId noteData
                                nextThnNumber advanceAmount d2
                         else d2)
               in if fails 7 then (Failed, d3) else (Created, d3))"

section \<open>Backend: validating and creating a payment (validation.ts, paymentController.ts)\<close>

text \<open>The values of the enumerations \<open>PaymentType\<close> and \<open>PaymentMode\<close>.\<close>

definition parsePaymentType :: "string \<Rightarrow> PaymentType option" where
  "parsePaymentType s =
     (if s = ''Advance'' then Some ADVANCE
      else if s = ''Receipt'' then Some RECEIPT
      else if s = ''Payment'' then Some PAYMENT
      else None)"

definition PaymentMode_values :: "string list" where
  "PaymentMode_values = [''Cash'', ''Cheque'', ''NEFT'', ''RTGS'', ''UPI'']"

text \<open>A string in a condition: absent and empty strings are falsy.\<close>

definition truthy :: "string option \<Rightarrow> bool" where
  "truthy s = (case s of None \<Rightarrow> False | Some v \<Rightarrow> v \<noteq> [])"

text \<open>\<open>String.prototype.trim\<close> on the ASCII white space characters.\<close>

definition isSpace :: "char \<Rightarrow> bool" where
  "isSpace c = (c \<in> set [CHR 0x09, CHR 0x0A, CHR 0x0B, CHR 0x0C, CHR 0x0D, CHR '' ''])"

definition trim :: "string \<Rightarrow> string" where
  "trim s = rev (dropWhile isSpace (rev (dropWhile isSpace s)))"

text \<open>The base object of \<open>createPaymentSchema\<close>: types, presence and ranges.\<close>

definition inRangeOptional :: "rat \<Rightarrow> rat \<Rightarrow> rat option \<Rightarrow> bool" where
  "inRangeOptional lo hi x = (case x of None \<Rightarrow> True | Some v \<Rightarrow> lo \<le> v \<and> v \<le> hi)"

definition paymentObject :: "PaymentPayload \<Rightarrow> PaymentData option" where
  "paymentObject body =
     (case (PaymentPayload.amount body, PaymentPayload.date body,
            PaymentPayload.type body, PaymentPayload.mode body) of
        (Some a, Some dt, Some ty, Some m) \<Rightarrow>
          (case parsePaymentType ty of
             None \<Rightarrow> None
           | Some t \<Rightarrow>
               if a > 0 \<and> length dt \<ge> 1 \<and> m \<in> set PaymentMode_values
                  \<and> inRangeOptional 0 100 (PaymentPayload.tdsRate body)
                  \<and> nonnegativeOptional (PaymentPayload.tdsAmount body)
               then Some \<lparr>PaymentData.invoiceId = PaymentPayload.invoiceId body,
                          truckHiringNoteId = PaymentPayload.truckHiringNoteId body,
                          customer = PaymentPayload.customer body,
                          amount = a,
                          date = dt,
                          type = t,
                          mode = m,
                          referenceNo = PaymentPayload.referenceNo body,
                          notes_text = PaymentPayload.notes_text body,
                          tdsApplicable = PaymentPayload.tdsApplicable body,
                          tdsRate = PaymentPayload.tdsRate body,
                          tdsAmount = PaymentPayload.tdsAmount body,
                          tdsDate = PaymentPayload.tdsDate body\<rparr>
               else None)
      | _ \<Rightarrow> None)"

text \<open>The four refinements of \<open>createPaymentSchema\<close>, in the order of the source.\<close>

definition refineReference :: "PaymentData \<Rightarrow> bool" where
  "refineReference data = (truthy (invoiceId data) \<or> truthy (truckHiringNoteId data))"

definition refineCustomer :: "PaymentData \<Rightarrow> bool" where
  "refineCustomer data =
     (if truthy (invoiceId data)
      then (case customer data of None \<Rightarrow> False | Some c \<Rightarrow> c \<noteq> [] \<and> length (trim c) > 0)
      else True)"

definition refineTdsReceipt :: "PaymentData \<Rightarrow> bool" where
  "refineTdsReceipt data =
     (if tdsApplicable data = Some True \<and> type data \<noteq> RECEIPT then False else True)"

definition refineTdsRate :: "PaymentData \<Rightarrow> bool" where
  "refineTdsRate data =
     (if tdsApplicable data = Some True \<and> tdsRate data = None then False else True)"

text \<open>\<open>createPaymentSchema.parse\<close>: \<open>None\<close> is a thrown \<open>ZodError\<close>.\<close>

definition createPaymentSchema :: "PaymentPayload \<Rightarrow> PaymentData option" where
  "createPaymentSchema body =
     (case paymentObject body of
        None \<Rightarrow> None
      | Some data \<Rightarrow>
          if refineReference data \<and> refineCustomer data \<and> refineTdsReceipt data
             \<and> refineTdsRate data
          then Some data
          else None)"

text \<open>\<open>/^[0-9a-fA-F]{24}$/\<close>.\<close>

definition isHexDigit :: "char \<Rightarrow> bool" where
  "isHexDigit c = (c \<in> set ''0123456789abcdefABCDEF'')"

definition isObjectId :: "string \<Rightarrow> bool" where
  "isObjectId s = (length s = 24 \<and> list_all isHexDigit s)"

definition invalidCustomer :: "PaymentData \<Rightarrow> bool" where
  "invalidCustomer data =
     (case customer data of
        None \<Rightarrow> False
      | Some c \<Rightarrow> c \<noteq> [] \<and> trim c \<noteq> [] \<and> \<not> isObjectId c)"

text \<open>
  The TDS block of \<open>createPayment\<close> (lines 110 to 145): \<open>None\<close> is the early return
  with status 400 for a missing rate; otherwise the payment data as it is handed to
  \<open>new Payment\<close>, that is \<open>{...paymentData, amount: finalAmount, tdsAmount, tdsDate}\<close>.
\<close>

definition tdsAdjusted :: "PaymentData \<Rightarrow> PaymentData option" where
  "tdsAdjusted paymentData =
     (let finalAmount = amount paymentData;
          tdsAmount0 = tdsAmount paymentData;
          tdsDate0 = (if truthy (tdsDate paymentData) then tdsDate paymentData
                      else Some (PaymentData.date paymentData))
      in if tdsApplicable paymentData = Some True \<and> type paymentData = RECEIPT
         then (case tdsRate paymentData of
                 None \<Rightarrow> None
               | Some rate \<Rightarrow>
                   let tdsAmount1 = (case tdsAmount0 of
                                       None \<Rightarrow> amount paymentData * (rate / 100)
                                     | Some t \<Rightarrow> t);
                       finalAmount1 = (if tdsAmount paymentData = None
                                       then amount paymentData - tdsAmount1
                                       else amount paymentData)
                   in Some (paymentData\<lparr>amount := finalAmount1,
                                         tdsAmount := Some tdsAmount1,
                                         tdsDate := tdsDate0\<rparr>))
         else Some (paymentData\<lparr>amount := finalAmount,
                                 tdsRate := None,
                                 tdsAmount := None,
                                 tdsDate := None\<rparr>))"

text \<open>
  \<open>createPayment\<close>. \<open>now\<close> is the reading of \<open>Date.now()\<close> and \<open>paymentId\<close> the
  identifier that the store assigns. The store calls are, in order: 0 and 1 mint the
  payment number, 2 saves the payment, 3 pushes it onto its invoice or note, 4 to 7 are
  the calls of the status recomputation (of the invoice, which is outside the state, or of
  the note), 8 reads the payment back. An error thrown after the payment was saved leaves
  it saved.
\<close>

definition createPayment ::
  "faults \<Rightarrow> nat \<Rightarrow> object_id \<Rightarrow> PaymentPayload \<Rightarrow> db \<Rightarrow> response \<times> db" where
  "createPayment fails now paymentId body d =
     (case createPaymentSchema body of
        None \<Rightarrow> (ValidationFailed, d)
      | Some paymentData \<Rightarrow>
          if invalidCustomer paymentData then (ValidationFailed, d)
          else (case tdsAdjusted paymentData of
            None \<Rightarrow> (ValidationFailed, d)
          | Some adjusted \<Rightarrow>
              (case nextNumber fails 0 now ''paymentId'' d of
                 Inl e \<Rightarrow> (Failed, d)
               | Inr (number, d1) \<Rightarrow>
                   if fails 2 then (Failed, d1)
                   else
                     let payment = PaymentData.extend adjusted
                                     (PaymentDoc.fields paymentId number);
                         d2 = d1\<lparr>Payment_coll := Payment_coll d1 @ [payment]\<rparr>
                     in if truthy (invoiceId paymentData)
                        then (if fails 3 \<or> fails 4 \<or> fails 8 then (Failed, d2) else (Created, d2))
                        else if truthy (truckHiringNoteId paymentData)
                        then
                          if fails 3 then (Failed, d2)
                          else
                            let thnId = (case truckHiringNoteId paymentData of
                                           None \<Rightarrow> [] | Some i \<Rightarrow> i);
                                d3 = findByIdAndUpdate thnId
                                       (\<lambda>t. t\<lparr>payments := payments t @ [paymentId]\<rparr>) d2
                            in (case updateThnStatus (\<lambda>k. fails (k + 4)) thnId d3 of
                                  Inl e \<Rightarrow> (Failed, d3)
                                | Inr d4 \<Rightarrow> if fails 8 then (Failed, d4) else (Created, d4))
                        else (if fails 8 then (Failed, d2) else (Created, d2)))))"

section \<open>Concrete inputs\<close>

text \<open>
  A store with one note (freight 8000, additional charges 500, advance 2000 recorded on
  the note) and one advance payment of 1000 that was entered by hand, with a reference
  of its own.
\<close>

definition ex_thn :: TruckHiringNoteDoc where
  "ex_thn =
     \<lparr>THNData.date = ''2025-01-01'',
      truckOwnerName = ''Owner'',
      freightRate = 8000,
      advanceAmount = Some 2000,
      paymentMode = ''Cash'',
      additionalCharges = Some 500,
      thnNumber = 7,
      balanceAmount = 8500,
      status = UNPAID,
      paidAmount = 0,
      payments = [''p1'']\<rparr>"

definition ex_manual_advance :: PaymentDoc where
  "ex_manual_advance =
     \<lparr>PaymentData.invoiceId = None,
      truckHiringNoteId = Some ''t1'',
      customer = None,
      amount = 1000,
      date = ''2025-01-02'',
      type = ADVANCE,
      mode = ''Cash'',
      referenceNo = Some ''manual'',
      notes_text = None,
      tdsApplicable = None,
      tdsRate = None,
      tdsAmount = None,
      tdsDate = None,
      doc_id = ''p1'',
      paymentNumber = 1\<rparr>"

definition ex_db :: db where
  "ex_db =
     \<lparr>TruckHiringNote_coll = [''t1'' \<mapsto> ex_thn],
      Payment_coll = [ex_manual_advance],
      NumberingConfig_coll = Map.empty\<rparr>"

text \<open>A note request with an advance of 5000 on a freight of 8000 plus 500.\<close>

definition ex_noteData :: THNData where
  "ex_noteData =
     \<lparr>THNData.date = ''2025-02-01'',
      truckOwnerName = ''Second Owner'',
      freightRate = 8000,
      advanceAmount = Some 5000,
      paymentMode = ''Cash'',
      additionalCharges = Some 500\<rparr>"

text \<open>
  A receipt of 10000 gross against the note \<open>t1\<close>, with TDS at 10 percent and no TDS
  amount supplied.
\<close>

definition ex_receipt :: PaymentPayload where
  "ex_receipt =
     \<lparr>PaymentPayload.invoiceId = None,
      PaymentPayload.truckHiringNoteId = Some ''t1'',
      PaymentPayload.customer = None,
      PaymentPayload.amount = Some 10000,
      PaymentPayload.date = Some ''2025-01-15'',
      PaymentPayload.type = Some ''Receipt'',
      PaymentPayload.mode = Some ''NEFT'',
      PaymentPayload.referenceNo = None,
      PaymentPayload.notes_text = None,
      PaymentPayload.tdsApplicable = Some True,
      PaymentPayload.tdsRate = Some 10,
      PaymentPayload.tdsAmount = None,
      PaymentPayload.tdsDate = None\<rparr>"

text \<open>A payment request that carries an invoice reference and a THN reference.\<close>

definition ex_both :: PaymentPayload where
  "ex_both =
     \<lparr>PaymentPayload.invoiceId = Some ''inv1'',
      PaymentPayload.truckHiringNoteId = Some ''t1'',
      PaymentPayload.customer = Some ''0123456789abcdef01234567'',
      PaymentPayload.amount = Some 100,
      PaymentPayload.date = Some ''2025-01-15'',
      PaymentPayload.type = Some ''Payment'',
      PaymentPayload.mode = Some ''Cash'',
      PaymentPayload.referenceNo = None,
      PaymentPayload.notes_text = None,
      PaymentPayload.tdsApplicable = None,
      PaymentPayload.tdsRate = None,
      PaymentPayload.tdsAmount = None,
      PaymentPayload.tdsDate = None\<rparr>"

text \<open>The same request without either reference.\<close>

definition ex_neither :: PaymentPayload where
  "ex_neither =
     ex_both\<lparr>PaymentPayload.invoiceId := None, PaymentPayload.truckHiringNoteId := None\<rparr>"

text \<open>
  Ledger inputs. The instants are 2025-01-01, 2025-01-15 and 2025-01-31, each at
  midnight UTC: a customer with one invoice of 12000 on 2025-01-01 and one payment of
  5000 on 2025-01-15.
\<close>

definition jan01 :: instant where
  "jan01 = 1735689600000"

definition jan15 :: instant where
  "jan15 = 1736899200000"

definition jan31 :: instant where
  "jan31 = 1738281600000"

definition ex_customer :: Customer where
  "ex_customer = \<lparr>cust_id = ''c1'', name = ''Acme''\<rparr>"

definition ex_invoice :: Invoice where
  "ex_invoice =
     \<lparr>invoiceNumber = 1,
      Invoice.date = jan01,
      Invoice.customer = Some ex_customer,
      grandTotal = 12000\<rparr>"

definition ex_payment :: Payment where
  "ex_payment =
     \<lparr>pay_id = ''pay0001'',
      Payment.invoiceId = Some ''inv1'',
      Payment.truckHiringNoteId = None,
      Payment.customerId = Some ''c1'',
      Payment.customer = Some ex_customer,
      Payment.date = jan15,
      Payment.amount = 5000,
      Payment.type = RECEIPT,
      Payment.mode = ''NEFT'',
      Payment.referenceNo = None,
      Payment.tdsApplicable = None,
      Payment.tdsRate = None,
      Payment.tdsAmount = None,
      Payment.tdsDate = None\<rparr>"

text \<open>A receipt of 10000 gross with TDS of 1000: the stored amount is the net 9000.\<close>

definition ex_tds_payment :: Payment where
  "ex_tds_payment =
     ex_payment\<lparr>Payment.amount := 9000,
                Payment.tdsApplicable := Some True,
                Payment.tdsRate := Some 10,
                Payment.tdsAmount := Some 1000\<rparr>"

definition ex_ledger_thn :: TruckHiringNote where
  "ex_ledger_thn =
     \<lparr>TruckHiringNote.thnNumber = 7,
      TruckHiringNote.date = jan15,
      TruckHiringNote.truckOwnerName = ''Owner'',
      TruckHiringNote.freightRate = 8000\<rparr>"

text \<open>Filters for January 2025, and the same with the four other fields set.\<close>

definition ex_january :: LedgerFilters where
  "ex_january =
     \<lparr>startDate = Some jan01,
      endDate = Some jan31,
      LedgerFilters.customerId = None,
      LedgerFilters.voucherType = None,
      minAmount = None,
      maxAmount = None\<rparr>"

definition ex_january_more :: LedgerFilters where
  "ex_january_more =
     ex_january\<lparr>LedgerFilters.customerId := Some ''c2'',
                LedgerFilters.voucherType := Some ''INVOICE'',
                minAmount := Some 100000,
                maxAmount := Some 1\<rparr>"

text \<open>Filters that end on 2025-01-01, before the payment of 2025-01-15.\<close>

definition ex_until_jan01 :: LedgerFilters where
  "ex_until_jan01 = ex_january\<lparr>endDate := Some jan01\<rparr>"

text \<open>The two ledgers of these inputs.\<close>

text \<open>
  The receipt with TDS of 2025-01-15, its TDS dated 2024-12-15, before the start of
  January 2025.
\<close>

definition dec15 :: instant where
  "dec15 = 1734220800000"

definition ex_early_tds_payment :: Payment where
  "ex_early_tds_payment = ex_tds_payment\<lparr>Payment.tdsDate := Some dec15\<rparr>"

definition ex_client_ledger :: ClientLedgerData where
  "ex_client_ledger = generateClientLedger ''c1'' ex_customer [ex_invoice] [ex_payment] [] None"

definition ex_company_ledger :: CompanyLedgerData where
  "ex_company_ledger =
     generateCompanyLedger jan31 [] [ex_invoice] [ex_tds_payment] [ex_ledger_thn] (Some ex_january)"

section \<open>Properties of the THN status recomputation\<close>

lemma paid_from_records:
  "(let totalPaid = aggregateTotal thnId ps
    in if length totalPaid > 0 then hd totalPaid else 0) = linkedSum thnId ps"
  by (simp add: aggregateTotal_def linkedSum_def Let_def)

lemma findAdvancePayment_iff:
  "findAdvancePayment thnId ps \<noteq> None
     \<longleftrightarrow> (\<exists>p \<in> set ps. truckHiringNoteId p = Some thnId \<and> type p = ADVANCE)"
  by (auto simp: findAdvancePayment_def find_None_iff)

lemma updateThnStatus_found:
  assumes "TruckHiringNote_coll d thnId = Some thn"
      and "\<not> fails 0" "\<not> fails 1" "\<not> fails 2" "\<not> fails 3"
  shows "updateThnStatus fails thnId d =
           Inr (d\<lparr>TruckHiringNote_coll := (TruckHiringNote_coll d)(thnId \<mapsto>
             (let paid = (if findAdvancePayment thnId (Payment_coll d) \<noteq> None
                          then linkedSum thnId (Payment_coll d)
                          else linkedSum thnId (Payment_coll d) + orZero (advanceAmount thn));
                  bal = max 0 (freightRate thn + orZero (additionalCharges thn) - paid)
              in thn\<lparr>paidAmount := paid, balanceAmount := bal,
                      status := (if bal \<le> 0 then PAID
                                 else if paid > 0 then PARTIALLY_PAID else UNPAID)\<rparr>))\<rparr>)"
  using assms paid_from_records [of thnId "Payment_coll d"]
  by (simp add: updateThnStatus_def updateThnStatus_try_def findByIdAndUpdate_def Let_def)

lemma updateThnStatus_returns: "\<exists>d'. updateThnStatus fails thnId d = Inr d'"
  by (simp add: updateThnStatus_def split: sum.split)

lemma updateThnStatus_missing:
  "TruckHiringNote_coll d thnId = None \<Longrightarrow> updateThnStatus fails thnId d = Inr d"
  by (simp add: updateThnStatus_def updateThnStatus_try_def)

lemma updateThnStatus_dom:
  assumes res: "updateThnStatus fails thnId d = Inr d'"
  shows "dom (TruckHiringNote_coll d') = dom (TruckHiringNote_coll d)"
proof (cases "updateThnStatus_try fails thnId d")
  case (Inl e)
  with res show ?thesis by (simp add: updateThnStatus_def)
next
  case (Inr d2)
  with res have eq: "d2 = d'" by (simp add: updateThnStatus_def)
  show ?thesis
  proof (cases "TruckHiringNote_coll d thnId")
    case None
    with Inr eq show ?thesis by (simp add: updateThnStatus_try_def split: if_splits)
  next
    case (Some thn)
    with Inr eq show ?thesis
      by (auto simp: updateThnStatus_try_def findByIdAndUpdate_def Let_def split: if_splits)
  qed
qed

lemma recomputeAll_returns: "\<exists>d'. recomputeAll fails ids d = Inr d'"
proof (induction ids arbitrary: d)
  case Nil
  show ?case by simp
next
  case (Cons i ids)
  obtain d1 where "updateThnStatus (fails i) i d = Inr d1"
    using updateThnStatus_returns by blast
  then show ?case using Cons.IH [of d1] by simp
qed

lemma recomputeAll_skip_missing:
  "TruckHiringNote_coll d missing = None \<Longrightarrow>
     recomputeAll fails (before @ missing # after) d = recomputeAll fails (before @ after) d"
proof (induction before arbitrary: d)
  case Nil
  then show ?case by (simp add: updateThnStatus_missing)
next
  case (Cons i before)
  obtain d1 where d1: "updateThnStatus (fails i) i d = Inr d1"
    using updateThnStatus_returns by blast
  have "dom (TruckHiringNote_coll d1) = dom (TruckHiringNote_coll d)"
    using d1 by (rule updateThnStatus_dom)
  then have "TruckHiringNote_coll d1 missing = None"
    using Cons.prems by (metis domIff)
  then show ?case using Cons.IH [of d1] d1 by simp
qed

text \<open>
  Claim C1. When \<open>updateThnStatus\<close> finds the note and its store calls succeed, the
  values it persists satisfy: with the total amount being the freight rate plus the
  additional charges (absent additional charges counting as 0), the balance amount is
  the maximum of 0 and the total amount minus the persisted paid amount, so it is never
  negative; the status is Paid when the balance amount is at most 0, otherwise Partially
  Paid when the paid amount is positive, otherwise Unpaid. The freight rate and the
  additional charges of the note are left as they were.
\<close>

theorem updateThnStatus_persisted_values:
  assumes "TruckHiringNote_coll d thnId = Some thn"
      and "\<not> fails 0" "\<not> fails 1" "\<not> fails 2" "\<not> fails 3"
  shows "\<exists>thn'. storedThn (updateThnStatus fails thnId d) thnId = Some thn'
           \<and> freightRate thn' = freightRate thn
           \<and> additionalCharges thn' = additionalCharges thn
           \<and> balanceAmount thn'
               = max 0 (freightRate thn' + orZero (additionalCharges thn') - paidAmount thn')
           \<and> balanceAmount thn' \<ge> 0
           \<and> status thn'
               = (if balanceAmount thn' \<le> 0 then PAID
                  else if paidAmount thn' > 0 then PARTIALLY_PAID
                  else UNPAID)"
  using updateThnStatus_found [OF assms]
  by (simp add: storedThn_def Let_def)

theorem updateThnStatus_persisted_values_witness:
  "TruckHiringNote_coll ex_db ''t1'' = Some ex_thn
   \<and> (\<exists>thn'. storedThn (updateThnStatus no_faults ''t1'' ex_db) ''t1'' = Some thn'
           \<and> freightRate thn' = freightRate ex_thn
           \<and> additionalCharges thn' = additionalCharges ex_thn
           \<and> balanceAmount thn'
               = max 0 (freightRate thn' + orZero (additionalCharges thn') - paidAmount thn')
           \<and> balanceAmount thn' \<ge> 0
           \<and> status thn'
               = (if balanceAmount thn' \<le> 0 then PAID
                  else if paidAmount thn' > 0 then PARTIALLY_PAID
                  else UNPAID))"
proof -
  have found: "TruckHiringNote_coll ex_db ''t1'' = Some ex_thn"
    by (simp add: ex_db_def)
  show ?thesis
    using found
      updateThnStatus_persisted_values [of ex_db "''t1''" ex_thn no_faults, OF found]
    by (simp add: no_faults_def)
qed

text \<open>
  What \<open>updateThnStatus\<close> persists as the paid amount: the query for an existing
  advance payment matches on the note and on the type Advance, so the stored advance of
  the note is added to the sum of the linked payments only when no linked payment has the
  type Advance.
\<close>

lemma updateThnStatus_paidAmount:
  assumes "TruckHiringNote_coll d thnId = Some thn"
      and "\<not> fails 0" "\<not> fails 1" "\<not> fails 2" "\<not> fails 3"
  shows "\<exists>thn'. storedThn (updateThnStatus fails thnId d) thnId = Some thn'
           \<and> paidAmount thn'
               = (if \<exists>p \<in> set (Payment_coll d). truckHiringNoteId p = Some thnId \<and> type p = ADVANCE
                  then linkedSum thnId (Payment_coll d)
                  else linkedSum thnId (Payment_coll d) + orZero (advanceAmount thn))"
  using updateThnStatus_found [OF assms] findAdvancePayment_iff [of thnId "Payment_coll d"]
  by (simp add: storedThn_def Let_def)

text \<open>
  Claim C2. The claim detects the advance payment of a note by the type Advance together
  with the reference \<open>THN-{number}-ADVANCE\<close>, as the query of \<open>updateTruckHiringNote\<close>
  does; \<open>updateThnStatus\<close> leaves the reference out of its query and departs from the
  claim at \<open>ex_db\<close>. The note has number 7 and a stored advance of 2000; its only
  payment is of type Advance with the reference \<open>manual\<close>, so no payment carries the
  reference \<open>THN-7-ADVANCE\<close> and the stored advance is part of no payment. The claim
  gives the sum of the linked payments plus the stored advance, 3000; the code persists
  1000. Without the payment the code persists 2000, so linking a payment of 1000 lowers the
  paid amount.
\<close>

theorem updateThnStatus_untagged_advance:
  "findTaggedAdvancePayment ''t1'' (thnNumber ex_thn) (Payment_coll ex_db) = None
   \<and> linkedSum ''t1'' (Payment_coll ex_db) + orZero (advanceAmount ex_thn) = 3000
   \<and> map_option paidAmount (storedThn (updateThnStatus no_faults ''t1'' ex_db) ''t1'') = Some 1000
   \<and> map_option paidAmount
         (storedThn (updateThnStatus no_faults ''t1'' (ex_db\<lparr>Payment_coll := []\<rparr>)) ''t1'')
       = Some 2000"
  by (simp add: findTaggedAdvancePayment_def advanceReference_def linkedSum_def orZero_def
        storedThn_def updateThnStatus_def updateThnStatus_try_def findByIdAndUpdate_def
        aggregateTotal_def findAdvancePayment_def no_faults_def
        ex_db_def ex_thn_def ex_manual_advance_def Let_def)

text \<open>
  Claim C8. \<open>updateThnStatus\<close> returns normally for every identifier, whatever store
  call throws. When no note has the identifier, the store is returned unchanged. A
  recomputation over a list of identifiers therefore always completes, and an identifier
  without a note in the list has no effect on its result.
\<close>

theorem updateThnStatus_never_throws:
  "(\<exists>d'. updateThnStatus fails thnId d = Inr d')
   \<and> (TruckHiringNote_coll d thnId = None \<longrightarrow> updateThnStatus fails thnId d = Inr d)
   \<and> (\<exists>d'. recomputeAll failsOf ids d = Inr d')
   \<and> (TruckHiringNote_coll d thnId = None \<longrightarrow>
        recomputeAll failsOf (before @ thnId # after) d = recomputeAll failsOf (before @ after) d)"
  using updateThnStatus_returns [of fails thnId d] updateThnStatus_missing [of d thnId fails]
    recomputeAll_returns [of failsOf ids d]
    recomputeAll_skip_missing [of d thnId failsOf before after]
  by blast

theorem updateThnStatus_never_throws_witness:
  "TruckHiringNote_coll ex_db ''missing'' = None
   \<and> updateThnStatus no_faults ''missing'' ex_db = Inr ex_db
   \<and> recomputeAll (\<lambda>i. no_faults) [''t1'', ''missing''] ex_db
       = recomputeAll (\<lambda>i. no_faults) [''t1''] ex_db"
proof -
  have missing: "TruckHiringNote_coll ex_db ''missing'' = None"
    by (simp add: ex_db_def)
  show ?thesis
    using missing
      updateThnStatus_never_throws
        [of no_faults "''missing''" ex_db "\<lambda>i. no_faults" "[]" "[''t1'']" "[]"]
    by simp
qed

section \<open>Properties of creating a truck hiring note\<close>

lemma nextNumber_ok:
  assumes "\<not> fails k" "\<not> fails (k + 1)"
  shows "\<exists>n c. nextNumber fails k now ty d = Inr (n, d\<lparr>NumberingConfig_coll := c\<rparr>)"
proof (cases "NumberingConfig_coll d ty")
  case None
  then have "nextNumber fails k now ty d = Inr (now, d\<lparr>NumberingConfig_coll := NumberingConfig_coll d\<rparr>)"
    using assms by (simp add: nextNumber_def)
  then show ?thesis by blast
next
  case (Some n)
  then have "nextNumber fails k now ty d
               = Inr (n, d\<lparr>NumberingConfig_coll := (NumberingConfig_coll d)(ty \<mapsto> n + 1)\<rparr>)"
    using assms by (simp add: nextNumber_def)
  then show ?thesis by blast
qed

lemma linkedSum_append:
  "linkedSum thnId (ps @ qs) = linkedSum thnId ps + linkedSum thnId qs"
  by (simp add: linkedSum_def)

lemma linkedSum_fresh:
  "\<forall>p \<in> set ps. truckHiringNoteId p \<noteq> Some thnId \<Longrightarrow> linkedSum thnId ps = 0"
proof -
  assume "\<forall>p \<in> set ps. truckHiringNoteId p \<noteq> Some thnId"
  then have "filter (\<lambda>p. truckHiringNoteId p = Some thnId) ps = []"
    by (simp add: filter_empty_conv)
  then show ?thesis by (simp add: linkedSum_def)
qed

lemma createTruckHiringNote_result:
  assumes valid: "createTruckHiringNoteSchema noteData"
      and adv: "advanceAmount noteData = Some a" and pos: "a > 0"
  shows "\<exists>n m c. createTruckHiringNote no_faults now1 now2 noteId paymentId noteData d =
           (Created,
            \<lparr>TruckHiringNote_coll = (TruckHiringNote_coll d)(noteId \<mapsto>
               \<lparr>THNData.date = THNData.date noteData,
                truckOwnerName = truckOwnerName noteData,
                freightRate = freightRate noteData,
                advanceAmount = Some a,
                paymentMode = paymentMode noteData,
                additionalCharges = Some (orZero (additionalCharges noteData)),
                thnNumber = n,
                balanceAmount = max 0 (freightRate noteData + orZero (additionalCharges noteData) - a),
                status = (if max 0 (freightRate noteData + orZero (additionalCharges noteData) - a) \<le> 0
                          then PAID else PARTIALLY_PAID),
                paidAmount = a,
                payments = [paymentId]\<rparr>),
             Payment_coll = Payment_coll d @
               [\<lparr>PaymentData.invoiceId = None,
                 truckHiringNoteId = Some noteId,
                 customer = None,
                 amount = a,
                 date = THNData.date noteData,
                 type = ADVANCE,
                 mode = (if paymentMode noteData = [] then ''Cash'' else paymentMode noteData),
                 referenceNo = Some (advanceReference n),
                 notes_text = Some (''Advance payment for THN #'' @ decimal n),
                 tdsApplicable = None, tdsRate = None, tdsAmount = None, tdsDate = None,
                 doc_id = paymentId,
                 paymentNumber = m\<rparr>],
             NumberingConfig_coll = c\<rparr>)"
proof -
  obtain n c1 where n: "nextNumber no_faults 0 now1 ''truckHiringNoteId'' d
                          = Inr (n, d\<lparr>NumberingConfig_coll := c1\<rparr>)"
    using nextNumber_ok [of no_faults 0 now1 "''truckHiringNoteId''" d]
    by (auto simp: no_faults_def)
  define d2 where "d2 = d\<lparr>NumberingConfig_coll := c1,
     TruckHiringNote_coll := (TruckHiringNote_coll d)(noteId \<mapsto>
               \<lparr>THNData.date = THNData.date noteData,
                truckOwnerName = truckOwnerName noteData,
                freightRate = freightRate noteData,
                advanceAmount = Some a,
                paymentMode = paymentMode noteData,
                additionalCharges = Some (orZero (additionalCharges noteData)),
                thnNumber = n,
                balanceAmount = max 0 (freightRate noteData + orZero (additionalCharges noteData) - a),
                status = (if max 0 (freightRate noteData + orZero (additionalCharges noteData) - a) \<le> 0
                          then PAID else PARTIALLY_PAID),
                paidAmount = a,
                payments = []\<rparr>)\<rparr>"
  obtain m c2 where m: "nextNumber no_faults 3 now2 ''paymentId'' d2
                          = Inr (m, d2\<lparr>NumberingConfig_coll := c2\<rparr>)"
    using nextNumber_ok [of no_faults 3 now2 "''paymentId''" d2]
    by (auto simp: no_faults_def)
  have step1: "createTruckHiringNote no_faults now1 now2 noteId paymentId noteData d
          = (Created, createAdvancePayment no_faults now2 noteId paymentId noteData n a d2)"
    using valid adv pos n
    by (simp add: createTruckHiringNote_def Let_def orZero_def no_faults_def d2_def)
  have step2: "createAdvancePayment no_faults now2 noteId paymentId noteData n a d2 =
     \<lparr>TruckHiringNote_coll = (TruckHiringNote_coll d)(noteId \<mapsto>
               \<lparr>THNData.date = THNData.date noteData,
                truckOwnerName = truckOwnerName noteData,
                freightRate = freightRate noteData,
                advanceAmount = Some a,
                paymentMode = paymentMode noteData,
                additionalCharges = Some (orZero (additionalCharges noteData)),
                thnNumber = n,
                balanceAmount = max 0 (freightRate noteData + orZero (additionalCharges noteData) - a),
                status = (if max 0 (freightRate noteData + orZero (additionalCharges noteData) - a) \<le> 0
                          then PAID else PARTIALLY_PAID),
                paidAmount = a,
                payments = [paymentId]\<rparr>),
             Payment_coll = Payment_coll d @
               [\<lparr>PaymentData.invoiceId = None,
                 truckHiringNoteId = Some noteId,
                 customer = None,
                 amount = a,
                 date = THNData.date noteData,
                 type = ADVANCE,
                 mode = (if paymentMode noteData = [] then ''Cash'' else paymentMode noteData),
                 referenceNo = Some (advanceReference n),
                 notes_text = Some (''Advance payment for THN #'' @ decimal n),
                 tdsApplicable = None, tdsRate = None, tdsAmount = None, tdsDate = None,
                 doc_id = paymentId,
                 paymentNumber = m\<rparr>],
             NumberingConfig_coll = c2\<rparr>"
    using m
    by (simp add: createAdvancePayment_def findByIdAndUpdate_def Let_def no_faults_def d2_def)
  show ?thesis
    apply (rule exI [of _ n], rule exI [of _ m], rule exI [of _ c2])
    using step1 step2 by simp
qed

text \<open>
  Claim C3. Creating a truck hiring note with a positive advance amount \<open>a\<close> (the claim
  has \<open>a = 5000\<close>), when the store calls succeed and no payment refers to the
  identifier of the new note yet, leaves exactly one payment of type Advance linked to
  the note; its amount is \<open>a\<close> and its reference is \<open>THN-{number}-ADVANCE\<close> for the
  number of the note. The recomputation that follows persists the paid amount \<open>a\<close>:
  the advance stored on the note is not added to the payment that represents it.
\<close>

theorem createTruckHiringNote_advance_counted_once:
  assumes valid: "createTruckHiringNoteSchema noteData"
      and adv: "advanceAmount noteData = Some a" and pos: "a > 0"
      and fresh: "\<forall>p \<in> set (Payment_coll d). truckHiringNoteId p \<noteq> Some noteId"
  shows "\<exists>d' n p.
           createTruckHiringNote no_faults now1 now2 noteId paymentId noteData d = (Created, d')
           \<and> map_option thnNumber (TruckHiringNote_coll d' noteId) = Some n
           \<and> filter (\<lambda>q. truckHiringNoteId q = Some noteId \<and> type q = ADVANCE) (Payment_coll d') = [p]
           \<and> amount p = a
           \<and> referenceNo p = Some (advanceReference n)
           \<and> map_option paidAmount (storedThn (updateThnStatus no_faults noteId d') noteId) = Some a"
proof -
  obtain n m c d' where run:
    "createTruckHiringNote no_faults now1 now2 noteId paymentId noteData d = (Created, d')"
    and d': "d' =
            \<lparr>TruckHiringNote_coll = (TruckHiringNote_coll d)(noteId \<mapsto>
               \<lparr>THNData.date = THNData.date noteData,
                truckOwnerName = truckOwnerName noteData,
                freightRate = freightRate noteData,
                advanceAmount = Some a,
                paymentMode = paymentMode noteData,
                additionalCharges = Some (orZero (additionalCharges noteData)),
                thnNumber = n,
                balanceAmount = max 0 (freightRate noteData + orZero (additionalCharges noteData) - a),
                status = (if max 0 (freightRate noteData + orZero (additionalCharges noteData) - a) \<le> 0
                          then PAID else PARTIALLY_PAID),
                paidAmount = a,
                payments = [paymentId]\<rparr>),
             Payment_coll = Payment_coll d @
               [\<lparr>PaymentData.invoiceId = None,
                 truckHiringNoteId = Some noteId,
                 customer = None,
                 amount = a,
                 date = THNData.date noteData,
                 type = ADVANCE,
                 mode = (if paymentMode noteData = [] then ''Cash'' else paymentMode noteData),
                 referenceNo = Some (advanceReference n),
                 notes_text = Some (''Advance payment for THN #'' @ decimal n),
                 tdsApplicable = None, tdsRate = None, tdsAmount = None, tdsDate = None,
                 doc_id = paymentId,
                 paymentNumber = m\<rparr>],
             NumberingConfig_coll = c\<rparr>"
    using createTruckHiringNote_result [OF valid adv pos, of now1 now2 noteId paymentId d]
    by blast
  define p where "p = last (Payment_coll d')"
  have none: "filter (\<lambda>q. truckHiringNoteId q = Some noteId \<and> type q = ADVANCE) (Payment_coll d) = []"
    using fresh by (simp add: filter_empty_conv)
  have one: "filter (\<lambda>q. truckHiringNoteId q = Some noteId \<and> type q = ADVANCE) (Payment_coll d') = [p]"
    using none by (simp add: d' p_def)
  have fields: "amount p = a" "referenceNo p = Some (advanceReference n)"
    by (simp_all add: d' p_def)
  have number: "map_option thnNumber (TruckHiringNote_coll d' noteId) = Some n"
    by (simp add: d')
  obtain thn where thn: "TruckHiringNote_coll d' noteId = Some thn" "advanceAmount thn = Some a"
    by (simp add: d')
  have exists: "findAdvancePayment noteId (Payment_coll d') \<noteq> None"
    unfolding findAdvancePayment_iff by (simp add: d')
  have sum: "linkedSum noteId (Payment_coll d') = a"
    using linkedSum_fresh [OF fresh] by (simp add: d' linkedSum_append) (simp add: linkedSum_def)
  have "map_option paidAmount (storedThn (updateThnStatus no_faults noteId d') noteId) = Some a"
    using updateThnStatus_found [OF thn(1), of no_faults] exists sum
    by (simp add: no_faults_def storedThn_def Let_def)
  with run number one fields show ?thesis by blast
qed

theorem createTruckHiringNote_advance_counted_once_witness:
  "createTruckHiringNoteSchema ex_noteData
   \<and> advanceAmount ex_noteData = Some 5000
   \<and> freightRate ex_noteData + orZero (additionalCharges ex_noteData) > 5000
   \<and> (\<exists>d' n p.
         createTruckHiringNote no_faults 1000 2000 ''t2'' ''p2'' ex_noteData ex_db = (Created, d')
         \<and> map_option thnNumber (TruckHiringNote_coll d' ''t2'') = Some n
         \<and> filter (\<lambda>q. truckHiringNoteId q = Some ''t2'' \<and> type q = ADVANCE) (Payment_coll d') = [p]
         \<and> amount p = 5000
         \<and> referenceNo p = Some (advanceReference n)
         \<and> map_option paidAmount (storedThn (updateThnStatus no_faults ''t2'' d') ''t2'') = Some 5000)"
proof -
  have valid: "createTruckHiringNoteSchema ex_noteData"
    by (simp add: createTruckHiringNoteSchema_def nonnegativeOptional_def ex_noteData_def)
  have adv: "advanceAmount ex_noteData = Some 5000"
    by (simp add: ex_noteData_def)
  have total: "freightRate ex_noteData + orZero (additionalCharges ex_noteData) > 5000"
    by (simp add: ex_noteData_def orZero_def)
  have fresh: "\<forall>p \<in> set (Payment_coll ex_db). truckHiringNoteId p \<noteq> Some ''t2''"
    by (simp add: ex_db_def ex_manual_advance_def)
  show ?thesis
    using valid adv total
      createTruckHiringNote_advance_counted_once
        [OF valid adv _ fresh, of 1000 2000 "''p2''"]
    by simp
qed

section \<open>Properties of validating and creating a payment\<close>

lemma parsePaymentType_Receipt: "parsePaymentType ty = Some RECEIPT \<longleftrightarrow> ty = ''Receipt''"
  by (simp add: parsePaymentType_def)

lemma paymentObject_fields:
  assumes "paymentObject body = Some pd"
  shows "PaymentPayload.amount body = Some (amount pd)
         \<and> (\<exists>ty. PaymentPayload.type body = Some ty \<and> parsePaymentType ty = Some (type pd))
         \<and> tdsApplicable pd = PaymentPayload.tdsApplicable body
         \<and> tdsRate pd = PaymentPayload.tdsRate body
         \<and> tdsAmount pd = PaymentPayload.tdsAmount body
         \<and> invoiceId pd = PaymentPayload.invoiceId body
         \<and> truckHiringNoteId pd = PaymentPayload.truckHiringNoteId body"
  using assms
  by (auto simp: paymentObject_def split: option.splits if_splits)

lemma createPaymentSchema_object:
  "createPaymentSchema body = Some pd \<Longrightarrow> paymentObject body = Some pd"
  by (simp add: createPaymentSchema_def split: option.splits if_splits)

lemma tdsAdjusted_cases:
  assumes "tdsAdjusted pd = Some adj"
  shows "if tdsApplicable pd = Some True \<and> type pd = RECEIPT
         then (\<exists>r. tdsRate pd = Some r
                 \<and> (case tdsAmount pd of
                       None \<Rightarrow> tdsAmount adj = Some (amount pd * r / 100)
                                 \<and> amount adj = amount pd - amount pd * r / 100
                     | Some t \<Rightarrow> tdsAmount adj = Some t \<and> amount adj = amount pd))
         else tdsAmount adj = None \<and> tdsRate adj = None \<and> tdsDate adj = None
              \<and> amount adj = amount pd"
  using assms
  by (auto simp: tdsAdjusted_def Let_def split: option.splits if_splits)

lemma nextNumber_payments:
  "nextNumber fails k now ty d = Inr (n, d1) \<Longrightarrow> Payment_coll d1 = Payment_coll d"
  by (auto simp: nextNumber_def split: if_splits option.splits)

lemma findByIdAndUpdate_payments:
  "Payment_coll (findByIdAndUpdate thnId upd d) = Payment_coll d"
  by (simp add: findByIdAndUpdate_def split: option.splits)

lemma updateThnStatus_payments:
  assumes "updateThnStatus fails thnId d = Inr d'"
  shows "Payment_coll d' = Payment_coll d"
proof (cases "updateThnStatus_try fails thnId d")
  case (Inl e)
  with assms show ?thesis by (simp add: updateThnStatus_def)
next
  case (Inr d2)
  with assms have eq: "d2 = d'" by (simp add: updateThnStatus_def)
  from Inr show ?thesis unfolding eq
    by (auto simp: updateThnStatus_try_def Let_def findByIdAndUpdate_payments
             split: if_splits option.splits)
qed

lemma createPayment_persisted:
  assumes run: "createPayment fails now paymentId body d = (resp, d')"
      and changed: "Payment_coll d' \<noteq> Payment_coll d"
  shows "\<exists>pd adj n. createPaymentSchema body = Some pd \<and> tdsAdjusted pd = Some adj
           \<and> Payment_coll d' = Payment_coll d @ [PaymentData.extend adj (PaymentDoc.fields paymentId n)]"
proof (cases "createPaymentSchema body")
  case None
  with run changed show ?thesis by (simp add: createPayment_def)
next
  case (Some pd)
  show ?thesis
  proof (cases "tdsAdjusted pd")
    case None
    with Some run changed show ?thesis by (simp add: createPayment_def split: if_splits)
  next
    case adj: (Some adj)
    show ?thesis
    proof (cases "nextNumber fails 0 now ''paymentId'' d")
      case (Inl e)
      with Some adj run changed show ?thesis by (simp add: createPayment_def split: if_splits)
    next
      case (Inr r)
      obtain n d1 where r: "r = (n, d1)" by (cases r)
      have p1: "Payment_coll d1 = Payment_coll d"
        using Inr r nextNumber_payments by blast
      have "Payment_coll d' = Payment_coll d @ [PaymentData.extend adj (PaymentDoc.fields paymentId n)]"
        using Some adj Inr r run changed p1
        by (auto simp: createPayment_def Let_def findByIdAndUpdate_payments
                 split: if_splits sum.splits dest!: updateThnStatus_payments)
      with Some adj show ?thesis by blast
    qed
  qed
qed

lemma extend_fields:
  "amount (PaymentData.extend adj (PaymentDoc.fields i n)) = amount adj"
  "tdsAmount (PaymentData.extend adj (PaymentDoc.fields i n)) = tdsAmount adj"
  "tdsRate (PaymentData.extend adj (PaymentDoc.fields i n)) = tdsRate adj"
  "tdsDate (PaymentData.extend adj (PaymentDoc.fields i n)) = tdsDate adj"
  "doc_id (PaymentData.extend adj (PaymentDoc.fields i n)) = i"
  by (simp_all add: PaymentData.extend_def PaymentDoc.fields_def)

text \<open>
  Claim C5. Whenever \<open>createPayment\<close> persists a payment, for the amount \<open>a\<close> of the
  request: if the request has \<open>tdsApplicable\<close> true and the type Receipt, then it has a
  TDS rate \<open>r\<close>, and either no TDS amount was supplied, the stored TDS amount is
  \<open>a * r / 100\<close> and the stored amount is \<open>a\<close> minus that, or a TDS amount was
  supplied, it is stored and the stored amount is \<open>a\<close> unchanged; otherwise the stored
  TDS amount, TDS rate and TDS date are absent and the stored amount is \<open>a\<close>.
\<close>

theorem createPayment_tds:
  assumes run: "createPayment fails now paymentId body d = (resp, d')"
      and changed: "Payment_coll d' \<noteq> Payment_coll d"
  shows "\<exists>a p. PaymentPayload.amount body = Some a
           \<and> Payment_coll d' = Payment_coll d @ [p]
           \<and> (if PaymentPayload.tdsApplicable body = Some True
                  \<and> PaymentPayload.type body = Some ''Receipt''
               then (\<exists>r. PaymentPayload.tdsRate body = Some r
                       \<and> (case PaymentPayload.tdsAmount body of
                             None \<Rightarrow> tdsAmount p = Some (a * r / 100) \<and> amount p = a - a * r / 100
                           | Some t \<Rightarrow> tdsAmount p = Some t \<and> amount p = a))
               else tdsAmount p = None \<and> tdsRate p = None \<and> tdsDate p = None \<and> amount p = a)"
proof -
  obtain pd adj n where pd: "createPaymentSchema body = Some pd"
    and adj: "tdsAdjusted pd = Some adj"
    and coll: "Payment_coll d' = Payment_coll d @ [PaymentData.extend adj (PaymentDoc.fields paymentId n)]"
    using createPayment_persisted [OF run changed] by blast
  note f = paymentObject_fields [OF createPaymentSchema_object [OF pd]]
  from f obtain ty where ty: "PaymentPayload.type body = Some ty" "parsePaymentType ty = Some (type pd)"
    by blast
  have rec: "type pd = RECEIPT \<longleftrightarrow> PaymentPayload.type body = Some ''Receipt''"
    using ty parsePaymentType_Receipt [of ty] by auto
  show ?thesis
    apply (rule exI [of _ "amount pd"])
    apply (rule exI [of _ "PaymentData.extend adj (PaymentDoc.fields paymentId n)"])
    using f coll tdsAdjusted_cases [OF adj] rec
    by (auto simp: extend_fields split: option.splits if_splits)
qed

theorem createPayment_tds_witness:
  "Payment_coll (snd (createPayment no_faults 0 ''p2'' ex_receipt ex_db)) \<noteq> Payment_coll ex_db
   \<and> (\<exists>p. Payment_coll (snd (createPayment no_faults 0 ''p2'' ex_receipt ex_db))
               = Payment_coll ex_db @ [p]
            \<and> tdsAmount p = Some 1000
            \<and> amount p = 9000)"
proof -
  have changed:
    "Payment_coll (snd (createPayment no_faults 0 ''p2'' ex_receipt ex_db)) \<noteq> Payment_coll ex_db"
    by (simp add: createPayment_def createPaymentSchema_def paymentObject_def parsePaymentType_def
          PaymentMode_values_def inRangeOptional_def nonnegativeOptional_def refineReference_def
          refineCustomer_def refineTdsReceipt_def refineTdsRate_def truthy_def invalidCustomer_def
          tdsAdjusted_def nextNumber_def findByIdAndUpdate_def updateThnStatus_def
          updateThnStatus_try_def no_faults_def ex_receipt_def ex_db_def Let_def
          split: sum.split)
  show ?thesis
    using changed
      createPayment_tds
        [of no_faults 0 "''p2''" ex_receipt ex_db
            "fst (createPayment no_faults 0 ''p2'' ex_receipt ex_db)"
            "snd (createPayment no_faults 0 ''p2'' ex_receipt ex_db)"]
    by (simp add: ex_receipt_def)
qed

lemma schema_neither:
  assumes "\<not> truthy (PaymentPayload.invoiceId body)"
      and "\<not> truthy (PaymentPayload.truckHiringNoteId body)"
  shows "createPaymentSchema body = None"
proof (cases "paymentObject body")
  case None
  then show ?thesis by (simp add: createPaymentSchema_def)
next
  case (Some pd)
  then have "\<not> refineReference pd"
    using assms paymentObject_fields [OF Some] by (simp add: refineReference_def)
  with Some show ?thesis by (simp add: createPaymentSchema_def)
qed

lemma paymentObject_drop_thn:
  "paymentObject (body\<lparr>PaymentPayload.truckHiringNoteId := None\<rparr>)
     = map_option (\<lambda>pd. pd\<lparr>PaymentData.truckHiringNoteId := None\<rparr>) (paymentObject body)"
  by (auto simp: paymentObject_def split: option.splits)

lemma schema_both:
  assumes "truthy (PaymentPayload.invoiceId body)"
  shows "createPaymentSchema body = None
           \<longleftrightarrow> createPaymentSchema (body\<lparr>PaymentPayload.truckHiringNoteId := None\<rparr>) = None"
proof (cases "paymentObject body")
  case None
  then show ?thesis by (simp add: createPaymentSchema_def paymentObject_drop_thn)
next
  case (Some pd)
  have inv: "truthy (invoiceId pd)"
    using assms paymentObject_fields [OF Some] by simp
  show ?thesis
    using Some inv
    by (simp add: createPaymentSchema_def paymentObject_drop_thn refineReference_def
          refineCustomer_def refineTdsReceipt_def refineTdsRate_def)
qed

text \<open>
  Claim C7, as amended. The payment schema rejects every payload that carries neither an
  invoice reference nor a THN reference (an empty string counting as absent). A payload
  that carries both references is not rejected on that account: it is rejected exactly
  when the same payload with the THN reference removed is rejected.
\<close>

theorem createPaymentSchema_reference:
  "(\<not> truthy (PaymentPayload.invoiceId body) \<and> \<not> truthy (PaymentPayload.truckHiringNoteId body)
      \<longrightarrow> createPaymentSchema body = None)
   \<and> (truthy (PaymentPayload.invoiceId body) \<and> truthy (PaymentPayload.truckHiringNoteId body)
      \<longrightarrow> (createPaymentSchema body = None
            \<longleftrightarrow> createPaymentSchema (body\<lparr>PaymentPayload.truckHiringNoteId := None\<rparr>) = None))"
  using schema_neither [of body] schema_both [of body] by blast

theorem createPaymentSchema_reference_witness:
  "createPaymentSchema ex_neither = None
   \<and> (createPaymentSchema ex_both = None
        \<longleftrightarrow> createPaymentSchema (ex_both\<lparr>PaymentPayload.truckHiringNoteId := None\<rparr>) = None)"
proof -
  have neither: "\<not> truthy (PaymentPayload.invoiceId ex_neither)"
                "\<not> truthy (PaymentPayload.truckHiringNoteId ex_neither)"
    by (simp_all add: ex_neither_def truthy_def)
  have both: "truthy (PaymentPayload.invoiceId ex_both)"
             "truthy (PaymentPayload.truckHiringNoteId ex_both)"
    by (simp_all add: ex_both_def truthy_def)
  show ?thesis
    using neither both
      createPaymentSchema_reference [of ex_neither]
      createPaymentSchema_reference [of ex_both]
    by simp
qed

text \<open>
  Claim C7 as stated fails: the payload \<open>ex_both\<close> carries an invoice reference and a
  THN reference, and the schema accepts it.
\<close>

theorem createPaymentSchema_both_counterexample:
  "PaymentPayload.invoiceId ex_both = Some ''inv1''
   \<and> PaymentPayload.truckHiringNoteId ex_both = Some ''t1''
   \<and> map_option PaymentData.truckHiringNoteId (createPaymentSchema ex_both) = Some (Some ''t1'')
   \<and> map_option PaymentData.invoiceId (createPaymentSchema ex_both) = Some (Some ''inv1'')"
  by (simp add: createPaymentSchema_def paymentObject_def parsePaymentType_def
        PaymentMode_values_def inRangeOptional_def nonnegativeOptional_def refineReference_def
        refineCustomer_def refineTdsReceipt_def refineTdsRate_def truthy_def trim_def isSpace_def
        ex_both_def)

section \<open>Properties of the ledger service\<close>

lemma length_runningBalances [simp]: "length (runningBalances rb es) = length es"
  by (induction es arbitrary: rb) (simp_all add: Let_def)

lemma runningBalances_content:
  "map entryContent (runningBalances rb es) = map entryContent es"
  by (induction es arbitrary: rb) (simp_all add: Let_def entryContent_def)

lemma runningBalances_date:
  "map CompanyLedgerEntry.date (runningBalances rb es) = map CompanyLedgerEntry.date es"
  by (induction es arbitrary: rb) (simp_all add: Let_def)

lemma runningBalances_net:
  "map (\<lambda>e. debit e - credit e) (runningBalances rb es) = map (\<lambda>e. debit e - credit e) es"
  by (induction es arbitrary: rb) (simp_all add: Let_def)

lemma prefixSum_runningBalances: "prefixSum (runningBalances rb es) i = prefixSum es i"
  by (simp add: prefixSum_def runningBalances_net flip: take_map)

lemma prefixSum_Cons_0: "prefixSum (e # es) 0 = debit e - credit e"
  by (simp add: prefixSum_def)

lemma prefixSum_Cons_Suc: "prefixSum (e # es) (Suc i) = (debit e - credit e) + prefixSum es i"
  by (simp add: prefixSum_def)

lemma runningBalances_nth:
  "i < length es \<Longrightarrow>
     balance (runningBalances rb es ! i) = \<bar>rb + prefixSum es i\<bar>
     \<and> balanceType (runningBalances rb es ! i) = (if rb + prefixSum es i \<ge> 0 then DR else CR)"
proof (induction es arbitrary: rb i)
  case Nil
  then show ?case by simp
next
  case (Cons e es)
  show ?case
  proof (cases i)
    case 0
    then show ?thesis by (simp add: Let_def prefixSum_Cons_0)
  next
    case (Suc k)
    then have "k < length es" using Cons.prems by simp
    from Cons.IH [OF this, of "rb + (debit e - credit e)"] Suc
    show ?thesis by (simp add: Let_def prefixSum_Cons_Suc add.assoc)
  qed
qed

lemma balance_law:
  assumes "ts = runningBalances 0 es" and "i < length ts"
  shows "balance (ts ! i) = \<bar>prefixSum ts i\<bar>
         \<and> balanceType (ts ! i) = (if prefixSum ts i \<ge> 0 then DR else CR)"
proof -
  have "i < length es" using assms by simp
  from runningBalances_nth [OF this, of 0] show ?thesis
    by (simp add: assms(1) prefixSum_runningBalances)
qed

lemma sorted_sortByDate: "sorted (map CompanyLedgerEntry.date (sortByDate es))"
  by (simp add: sortByDate_def sorted_sort_key)

lemma sortByDate_stable:
  "filter (\<lambda>c. fst c = d) (map entryContent (sortByDate es))
     = filter (\<lambda>c. fst c = d) (map entryContent es)"
proof -
  have "filter (\<lambda>c. fst c = d) (map entryContent xs)
          = map entryContent (filter (\<lambda>e. CompanyLedgerEntry.date e = d) xs)" for xs :: "('a CompanyLedgerEntry_scheme) list"
    by (simp add: filter_map comp_def entryContent_def)
  then show ?thesis
    by (simp add: sortByDate_def sort_key_stable)
qed

lemma ledger_order:
  assumes "ts = runningBalances 0 (sortByDate es)"
  shows "sorted (map CompanyLedgerEntry.date ts)
         \<and> filter (\<lambda>c. fst c = d) (map entryContent ts) = filter (\<lambda>c. fst c = d) (map entryContent es)"
  by (simp add: assms runningBalances_date sorted_sortByDate runningBalances_content sortByDate_stable)

lemma client_transactions:
  "ClientLedgerData.transactions (generateClientLedger custId cust invoices pays thns filters)
     = runningBalances 0 (sortByDate (clientEntries custId invoices pays filters))"
  by (simp add: generateClientLedger_def Let_def)

lemma company_transactions:
  "CompanyLedgerData.transactions (generateCompanyLedger now customers invoices pays thns filters)
     = runningBalances 0 (sortByDate (companyEntries (periodStart now filters) (periodEnd now filters)
                                         invoices pays thns))"
  by (simp add: generateCompanyLedger_def Let_def)

text \<open>
  Claim C4. The transactions of \<open>generateClientLedger\<close> and of
  \<open>generateCompanyLedger\<close> are sorted ascending by date; the entries of one date keep the
  order in which they were pushed (what an entry says apart from its balance is compared);
  and at every position \<open>i\<close> the balance is the absolute value of the sum of debit minus
  credit over the positions up to \<open>i\<close>, with the balance type DR when that sum is at
  least 0 and CR otherwise.
\<close>

theorem ledger_balance_law:
  fixes ts :: "ClientLedgerEntry list" and us :: "CompanyLedgerEntry list"
  assumes ts: "ts = ClientLedgerData.transactions
                      (generateClientLedger custId cust invs pays thns filters)"
      and us: "us = CompanyLedgerData.transactions
                      (generateCompanyLedger now customers invs' pays' thns' filters')"
  shows "sorted (map CompanyLedgerEntry.date ts)
         \<and> filter (\<lambda>c. fst c = d) (map entryContent ts)
             = filter (\<lambda>c. fst c = d) (map entryContent (clientEntries custId invs pays filters))
         \<and> (i < length ts \<longrightarrow>
              balance (ts ! i) = \<bar>prefixSum ts i\<bar>
              \<and> balanceType (ts ! i) = (if prefixSum ts i \<ge> 0 then DR else CR))
         \<and> sorted (map CompanyLedgerEntry.date us)
         \<and> filter (\<lambda>c. fst c = d) (map entryContent us)
             = filter (\<lambda>c. fst c = d)
                 (map entryContent (companyEntries (periodStart now filters') (periodEnd now filters')
                                      invs' pays' thns'))
         \<and> (k < length us \<longrightarrow>
              balance (us ! k) = \<bar>prefixSum us k\<bar>
              \<and> balanceType (us ! k) = (if prefixSum us k \<ge> 0 then DR else CR))"
proof -
  have t: "ts = runningBalances 0 (sortByDate (clientEntries custId invs pays filters))"
    by (simp add: ts client_transactions)
  have u: "us = runningBalances 0 (sortByDate (companyEntries (periodStart now filters')
                   (periodEnd now filters') invs' pays' thns'))"
    by (simp add: us company_transactions)
  show ?thesis
    using ledger_order [OF t, of d] ledger_order [OF u, of d]
      balance_law [OF t, of i] balance_law [OF u, of k]
    by blast
qed

lemmas ex_ledger_defs =
  ex_client_ledger_def ex_company_ledger_def generateClientLedger_def generateCompanyLedger_def
  clientEntries_def clientInvoiceEntries_def clientPaymentEntries_def clientDateOk_def
  companyEntries_def companyInvoiceEntries_def companyPaymentEntries_def companyThnEntries_def
  hasTDS_def inPeriod_def periodStart_def periodEnd_def entry_def sortByDate_def
  ex_invoice_def ex_payment_def ex_tds_payment_def ex_ledger_thn_def ex_customer_def
  ex_january_def ex_january_more_def ex_until_jan01_def jan01_def jan15_def jan31_def
  dec15_def ex_early_tds_payment_def

theorem ledger_balance_law_witness:
  "1 < length (ClientLedgerData.transactions ex_client_ledger)
   \<and> balance (ClientLedgerData.transactions ex_client_ledger ! 1)
       = \<bar>prefixSum (ClientLedgerData.transactions ex_client_ledger) 1\<bar>
   \<and> map balance (ClientLedgerData.transactions ex_client_ledger) = [12000, 7000]
   \<and> map balanceType (ClientLedgerData.transactions ex_client_ledger) = [DR, DR]
   \<and> 4 < length (CompanyLedgerData.transactions ex_company_ledger)
   \<and> balance (CompanyLedgerData.transactions ex_company_ledger ! 4)
       = \<bar>prefixSum (CompanyLedgerData.transactions ex_company_ledger) 4\<bar>
   \<and> prefixSum (CompanyLedgerData.transactions ex_company_ledger) 4 = - 2000
   \<and> balanceType (CompanyLedgerData.transactions ex_company_ledger ! 4) = CR"
proof -
  have len: "1 < length (ClientLedgerData.transactions ex_client_ledger)"
            "4 < length (CompanyLedgerData.transactions ex_company_ledger)"
    by (simp_all add: ex_ledger_defs Let_def)
  have vals: "map balance (ClientLedgerData.transactions ex_client_ledger) = [12000, 7000]"
             "map balanceType (ClientLedgerData.transactions ex_client_ledger) = [DR, DR]"
             "prefixSum (CompanyLedgerData.transactions ex_company_ledger) 4 = - 2000"
    by (simp_all add: ex_ledger_defs prefixSum_def Let_def)
  have inst:
    "ClientLedgerData.transactions ex_client_ledger
       = ClientLedgerData.transactions
           (generateClientLedger ''c1'' ex_customer [ex_invoice] [ex_payment] [] None)"
    "CompanyLedgerData.transactions ex_company_ledger
       = CompanyLedgerData.transactions
           (generateCompanyLedger jan31 [] [ex_invoice] [ex_tds_payment] [ex_ledger_thn]
              (Some ex_january))"
    by (simp_all add: ex_client_ledger_def ex_company_ledger_def)
  show ?thesis
    using len vals ledger_balance_law [OF inst, of jan01 1 4]
    by simp
qed

lemma companyPaymentEntries_tds:
  assumes "inPeriod start finish (Payment.date p)"
      and "Payment.type p = RECEIPT"
      and "Payment.tdsApplicable p = Some True"
      and "Payment.tdsAmount p = Some t" and "t > 0"
  shows "companyPaymentEntries start finish p =
           [entry (Payment.date p) (Payment.amount p) 0 DR,
            entry (case Payment.tdsDate p of None \<Rightarrow> Payment.date p | Some td \<Rightarrow> td) 0 t CR,
            entry (Payment.date p) 0 (Payment.amount p + t) CR]"
  using assms by (simp add: companyPaymentEntries_def hasTDS_def Let_def)

lemma company_contents:
  "entryContent ` set (CompanyLedgerData.transactions
                         (generateCompanyLedger now customers invs pays thns filters))
     = entryContent ` set (companyEntries (periodStart now filters) (periodEnd now filters)
                             invs pays thns)"
proof -
  have "set (map entryContent (runningBalances 0 es)) = set (map entryContent (sortByDate es'))"
    if "es = sortByDate es'" for es es' :: "CompanyLedgerEntry list"
    by (simp only: runningBalances_content that)
  then show ?thesis
    by (simp add: company_transactions sortByDate_def)
qed

lemma client_contents:
  "entryContent ` set (ClientLedgerData.transactions
                         (generateClientLedger custId cust invs pays thns filters))
     = entryContent ` set (clientEntries custId invs pays filters)"
proof -
  have "set (map entryContent (runningBalances 0 es)) = set (map entryContent (sortByDate es'))"
    if "es = sortByDate es'" for es es' :: "ClientLedgerEntry list"
    by (simp only: runningBalances_content that)
  then show ?thesis
    by (simp add: client_transactions sortByDate_def)
qed

lemma payment_entries_in_company:
  "p \<in> set pays \<Longrightarrow>
     set (companyPaymentEntries start finish p) \<subseteq> set (companyEntries start finish invs pays thns)"
  by (auto simp: companyEntries_def)

lemma invoice_entries_in_company:
  "iv \<in> set invs \<Longrightarrow>
     set (companyInvoiceEntries start finish iv) \<subseteq> set (companyEntries start finish invs pays thns)"
  by (auto simp: companyEntries_def)

lemma thn_entries_in_company:
  "thn \<in> set thns \<Longrightarrow>
     set (companyThnEntries start finish thn) \<subseteq> set (companyEntries start finish invs pays thns)"
  by (auto simp: companyEntries_def)

text \<open>
  Claim C6, as amended. For a Receipt payment in the period with \<open>tdsApplicable\<close> and a
  positive TDS amount \<open>t\<close>, \<open>generateCompanyLedger\<close> pushes exactly three entries: a
  debit of the stored (net) amount on the payment date, a credit of \<open>t\<close> dated by
  \<open>tdsDate\<close> when present and by the payment date otherwise, and a credit of the gross
  amount, net plus \<open>t\<close>, on the payment date; all three are among the transactions of
  the ledger. The net debit plus the TDS amount equals the gross credit.
\<close>

theorem companyLedger_tds_entries:
  assumes "inPeriod (periodStart now filters) (periodEnd now filters) (Payment.date p)"
      and "Payment.type p = RECEIPT"
      and "Payment.tdsApplicable p = Some True"
      and "Payment.tdsAmount p = Some t" and "t > 0"
      and es: "es = companyPaymentEntries (periodStart now filters) (periodEnd now filters) p"
  shows "es = [entry (Payment.date p) (Payment.amount p) 0 DR,
               entry (case Payment.tdsDate p of None \<Rightarrow> Payment.date p | Some td \<Rightarrow> td) 0 t CR,
               entry (Payment.date p) 0 (Payment.amount p + t) CR]
         \<and> (p \<in> set pays \<longrightarrow>
               entryContent ` set es
                 \<subseteq> entryContent ` set (CompanyLedgerData.transactions
                       (generateCompanyLedger now customers invs pays thns filters)))
         \<and> debit (es ! 0) + t = credit (es ! 2)"
proof -
  have three: "es = [entry (Payment.date p) (Payment.amount p) 0 DR,
               entry (case Payment.tdsDate p of None \<Rightarrow> Payment.date p | Some td \<Rightarrow> td) 0 t CR,
               entry (Payment.date p) 0 (Payment.amount p + t) CR]"
    unfolding es using assms(1-5) by (rule companyPaymentEntries_tds)
  have sums: "debit (es ! 0) + t = credit (es ! 2)"
    by (simp add: three entry_def)
  have "entryContent ` set es
          \<subseteq> entryContent ` set (CompanyLedgerData.transactions
                (generateCompanyLedger now customers invs pays thns filters))"
    if "p \<in> set pays"
    unfolding company_contents es
    using payment_entries_in_company [OF that] by (rule image_mono)
  with three sums show ?thesis by blast
qed

theorem companyLedger_tds_entries_witness:
  "inPeriod (periodStart jan31 (Some ex_january)) (periodEnd jan31 (Some ex_january))
     (Payment.date ex_tds_payment)
   \<and> Payment.tdsAmount ex_tds_payment = Some 1000
   \<and> companyPaymentEntries (periodStart jan31 (Some ex_january)) (periodEnd jan31 (Some ex_january))
        ex_tds_payment
       = [entry jan15 9000 0 DR, entry jan15 0 1000 CR, entry jan15 0 10000 CR]"
proof -
  have h: "inPeriod (periodStart jan31 (Some ex_january)) (periodEnd jan31 (Some ex_january))
             (Payment.date ex_tds_payment)"
          "Payment.type ex_tds_payment = RECEIPT"
          "Payment.tdsApplicable ex_tds_payment = Some True"
          "Payment.tdsAmount ex_tds_payment = Some 1000"
    by (simp_all add: ex_ledger_defs)
  show ?thesis
    using h companyLedger_tds_entries [OF h _ refl, of "[]" "[]" "[]" "[]"]
    by (simp add: ex_tds_payment_def ex_payment_def)
qed

text \<open>
  Claim C6 as stated fails in its last part: for the receipt of 10000 gross at 10 percent,
  stored as 9000 net with a TDS amount of 1000, the ledger has the debits 9000, 0, 0 and the
  credits 0, 1000, 10000, so the debits of the payment total 9000 and its credits 11000.
\<close>

theorem companyLedger_tds_unbalanced_counterexample:
  "hasTDS ex_tds_payment
   \<and> inPeriod (periodStart jan31 (Some ex_january)) (periodEnd jan31 (Some ex_january))
        (Payment.date ex_tds_payment)
   \<and> map debit (CompanyLedgerData.transactions
                (generateCompanyLedger jan31 [] [] [ex_tds_payment] [] (Some ex_january)))
     = [9000, 0, 0]
   \<and> map credit (CompanyLedgerData.transactions
                (generateCompanyLedger jan31 [] [] [ex_tds_payment] [] (Some ex_january)))
     = [0, 1000, 10000]
   \<and> sum_list [9000, 0, 0 :: rat] = 9000
   \<and> sum_list [0, 1000, 10000 :: rat] = 11000"
  by (simp add: ex_ledger_defs Let_def)

lemma foldl_plus:
  "foldl (\<lambda>sum x. sum + g x) a xs = a + sum_list (map g xs)" for a :: rat
  by (induction xs arbitrary: a) (simp_all add: add.assoc)

lemma company_summary:
  "totalRevenue (CompanyLedgerData.summary (generateCompanyLedger now customers invs pays thns filters))
     = sum_list (map grandTotal invs)"
  "totalExpenses (CompanyLedgerData.summary (generateCompanyLedger now customers invs pays thns filters))
     = sum_list (map TruckHiringNote.freightRate thns)"
  "netProfit (CompanyLedgerData.summary (generateCompanyLedger now customers invs pays thns filters))
     = sum_list (map grandTotal invs) - sum_list (map TruckHiringNote.freightRate thns)"
  by (simp_all add: generateCompanyLedger_def Let_def foldl_plus)

lemma company_skip_invoice:
  assumes "\<not> inPeriod (periodStart now filters) (periodEnd now filters) (Invoice.date iv)"
  shows "CompanyLedgerData.transactions (generateCompanyLedger now customers (iv # invs) pays thns filters)
           = CompanyLedgerData.transactions (generateCompanyLedger now customers invs pays thns filters)"
  using assms by (simp add: company_transactions companyEntries_def companyInvoiceEntries_def)

lemma company_skip_thn:
  assumes "\<not> inPeriod (periodStart now filters) (periodEnd now filters) (TruckHiringNote.date thn)"
  shows "CompanyLedgerData.transactions (generateCompanyLedger now customers invs pays (thn # thns) filters)
           = CompanyLedgerData.transactions (generateCompanyLedger now customers invs pays thns filters)"
  using assms by (simp add: company_transactions companyEntries_def companyThnEntries_def)

text \<open>
  Claim C10. The summary of \<open>generateCompanyLedger\<close> is computed over all the input:
  the total revenue is the sum of the grand totals of all invoices, the total expenses the
  sum of the freight rates of all THNs, and the net profit their difference. An invoice or
  a THN dated outside the period adds no transaction, and still adds its grand total to the
  total revenue, or its freight rate to the total expenses.
\<close>

theorem companyLedger_summary_ignores_period:
  "totalRevenue (CompanyLedgerData.summary (generateCompanyLedger now customers invs pays thns filters))
     = sum_list (map grandTotal invs)
   \<and> totalExpenses (CompanyLedgerData.summary (generateCompanyLedger now customers invs pays thns filters))
     = sum_list (map TruckHiringNote.freightRate thns)
   \<and> netProfit (CompanyLedgerData.summary (generateCompanyLedger now customers invs pays thns filters))
     = sum_list (map grandTotal invs) - sum_list (map TruckHiringNote.freightRate thns)
   \<and> (\<not> inPeriod (periodStart now filters) (periodEnd now filters) (Invoice.date iv) \<longrightarrow>
        CompanyLedgerData.transactions (generateCompanyLedger now customers (iv # invs) pays thns filters)
          = CompanyLedgerData.transactions (generateCompanyLedger now customers invs pays thns filters)
        \<and> totalRevenue (CompanyLedgerData.summary
              (generateCompanyLedger now customers (iv # invs) pays thns filters))
          = grandTotal iv
            + totalRevenue (CompanyLedgerData.summary
                (generateCompanyLedger now customers invs pays thns filters)))
   \<and> (\<not> inPeriod (periodStart now filters) (periodEnd now filters) (TruckHiringNote.date thn) \<longrightarrow>
        CompanyLedgerData.transactions (generateCompanyLedger now customers invs pays (thn # thns) filters)
          = CompanyLedgerData.transactions (generateCompanyLedger now customers invs pays thns filters)
        \<and> totalExpenses (CompanyLedgerData.summary
              (generateCompanyLedger now customers invs pays (thn # thns) filters))
          = TruckHiringNote.freightRate thn
            + totalExpenses (CompanyLedgerData.summary
                (generateCompanyLedger now customers invs pays thns filters)))"
  using company_skip_invoice [of now filters iv customers invs pays thns]
    company_skip_thn [of now filters thn customers invs pays thns]
  by (simp add: company_summary)

theorem companyLedger_summary_ignores_period_witness:
  "\<not> inPeriod (periodStart jan31 (Some ex_until_jan01)) (periodEnd jan31 (Some ex_until_jan01))
       (Invoice.date (ex_invoice\<lparr>Invoice.date := jan15\<rparr>))
   \<and> \<not> inPeriod (periodStart jan31 (Some ex_until_jan01)) (periodEnd jan31 (Some ex_until_jan01))
       (TruckHiringNote.date ex_ledger_thn)
   \<and> CompanyLedgerData.transactions
        (generateCompanyLedger jan31 [] [ex_invoice\<lparr>Invoice.date := jan15\<rparr>] [] []
           (Some ex_until_jan01))
       = []
   \<and> totalRevenue (CompanyLedgerData.summary
        (generateCompanyLedger jan31 [] [ex_invoice\<lparr>Invoice.date := jan15\<rparr>] [] []
           (Some ex_until_jan01)))
       = 12000
   \<and> CompanyLedgerData.transactions
        (generateCompanyLedger jan31 [] [] [] [ex_ledger_thn] (Some ex_until_jan01))
       = []
   \<and> totalExpenses (CompanyLedgerData.summary
        (generateCompanyLedger jan31 [] [] [] [ex_ledger_thn] (Some ex_until_jan01)))
       = 8000"
proof -
  have out: "\<not> inPeriod (periodStart jan31 (Some ex_until_jan01)) (periodEnd jan31 (Some ex_until_jan01))
                 (Invoice.date (ex_invoice\<lparr>Invoice.date := jan15\<rparr>))"
            "\<not> inPeriod (periodStart jan31 (Some ex_until_jan01)) (periodEnd jan31 (Some ex_until_jan01))
                 (TruckHiringNote.date ex_ledger_thn)"
    by (simp_all add: ex_ledger_defs)
  have empty: "CompanyLedgerData.transactions
                 (generateCompanyLedger jan31 [] [] [] [] (Some ex_until_jan01)) = []"
    by (simp add: ex_ledger_defs Let_def)
  have totals: "grandTotal (ex_invoice\<lparr>Invoice.date := jan15\<rparr>) = 12000"
               "TruckHiringNote.freightRate ex_ledger_thn = 8000"
    by (simp_all add: ex_invoice_def ex_ledger_thn_def)
  show ?thesis
    using out empty totals
      companyLedger_summary_ignores_period
        [of jan31 "[]" "[]" "[]" "[]" "Some ex_until_jan01"
            "ex_invoice\<lparr>Invoice.date := jan15\<rparr>" ex_ledger_thn]
    by simp
qed

lemma concat_map_filter:
  "(\<And>x. \<not> P x \<Longrightarrow> g x = []) \<Longrightarrow> concat (map g (filter P xs)) = concat (map g xs)"
  by (induction xs) simp_all

lemma companyEntries_filter:
  "companyEntries start finish
     (filter (\<lambda>iv. inPeriod start finish (Invoice.date iv)) invs)
     (filter (\<lambda>p. inPeriod start finish (Payment.date p)) pays)
     (filter (\<lambda>thn. inPeriod start finish (TruckHiringNote.date thn)) thns)
   = companyEntries start finish invs pays thns"
  by (simp add: companyEntries_def concat_map_filter companyInvoiceEntries_def
        companyPaymentEntries_def companyThnEntries_def)

lemma concat_map_filter_conj:
  "(\<And>x. \<not> Q x \<Longrightarrow> g x = []) \<Longrightarrow>
     concat (map g (filter (\<lambda>x. Q x \<and> P x) xs)) = concat (map g (filter P xs))"
  by (induction xs) simp_all

lemma clientEntries_filter:
  "clientEntries custId
     (filter (\<lambda>iv. clientDateOk filters (Invoice.date iv)) invs)
     (filter (\<lambda>p. clientDateOk filters (Payment.date p)) pays) filters
   = clientEntries custId invs pays filters"
proof -
  have inv: "concat (map (clientInvoiceEntries filters)
                      (filter (\<lambda>x. clientDateOk filters (Invoice.date x) \<and> P x) invs))
               = concat (map (clientInvoiceEntries filters) (filter P invs))" for P
    by (rule concat_map_filter_conj) (simp add: clientInvoiceEntries_def)
  have pay: "concat (map (clientPaymentEntries filters)
                      (filter (\<lambda>x. clientDateOk filters (Payment.date x) \<and> P x) pays))
               = concat (map (clientPaymentEntries filters) (filter P pays))" for P
    by (rule concat_map_filter_conj) (simp add: clientPaymentEntries_def)
  show ?thesis
    by (simp add: clientEntries_def Let_def inv pay)
qed

lemma clientDateOk_filterStart:
  "clientDateOk filters d = (case filterStart filters of None \<Rightarrow> True | Some s \<Rightarrow> s \<le> d)"
  by (simp add: clientDateOk_def filterStart_def split: option.splits)

lemma periodStart_filterStart:
  "periodStart now filters
     = (case filterStart filters of None \<Rightarrow> utcDay (now - 365 * msPerDay) | Some s \<Rightarrow> s)"
  by (simp add: periodStart_def filterStart_def split: option.splits)

lemma periodEnd_filterEnd:
  "periodEnd now filters = (case filterEnd filters of None \<Rightarrow> utcDay now | Some e \<Rightarrow> e)"
  by (simp add: periodEnd_def filterEnd_def split: option.splits)

lemma client_ignores_filters:
  assumes "filterStart f1 = filterStart f2"
  shows "generateClientLedger custId cust invs pays thns f1
           = generateClientLedger custId cust invs pays thns f2"
proof -
  have ok: "clientDateOk f1 d = clientDateOk f2 d" for d
    by (simp add: clientDateOk_filterStart assms)
  have "clientInvoiceEntries f1 = clientInvoiceEntries f2"
    by (rule ext) (simp add: clientInvoiceEntries_def ok)
  moreover have "clientPaymentEntries f1 = clientPaymentEntries f2"
    by (rule ext) (simp add: clientPaymentEntries_def ok)
  ultimately show ?thesis
    by (simp add: generateClientLedger_def clientEntries_def)
qed

lemma company_ignores_filters:
  assumes "filterStart f1 = filterStart f2" and "filterEnd f1 = filterEnd f2"
  shows "generateCompanyLedger now customers invs pays thns f1
           = generateCompanyLedger now customers invs pays thns f2"
proof -
  have "periodStart now f1 = periodStart now f2" "periodEnd now f1 = periodEnd now f2"
    by (simp_all add: periodStart_filterStart periodEnd_filterEnd assms)
  then show ?thesis
    by (simp add: generateCompanyLedger_def)
qed

lemma company_excludes:
  "CompanyLedgerData.transactions (generateCompanyLedger now customers invs pays thns filters)
     = CompanyLedgerData.transactions
         (generateCompanyLedger now customers
            (filter (\<lambda>iv. periodStart now filters \<le> Invoice.date iv
                           \<and> Invoice.date iv \<le> periodEnd now filters) invs)
            (filter (\<lambda>p. periodStart now filters \<le> Payment.date p
                          \<and> Payment.date p \<le> periodEnd now filters) pays)
            (filter (\<lambda>thn. periodStart now filters \<le> TruckHiringNote.date thn
                            \<and> TruckHiringNote.date thn \<le> periodEnd now filters) thns)
            filters)"
  using companyEntries_filter [of "periodStart now filters" "periodEnd now filters" invs pays thns]
  by (simp add: company_transactions inPeriod_def)

lemma client_excludes:
  assumes "filterStart filters = Some s"
  shows "ClientLedgerData.transactions (generateClientLedger custId cust invs pays thns filters)
     = ClientLedgerData.transactions
         (generateClientLedger custId cust
            (filter (\<lambda>iv. s \<le> Invoice.date iv) invs)
            (filter (\<lambda>p. s \<le> Payment.date p) pays) thns filters)"
  using clientEntries_filter [of custId filters invs pays]
  by (simp add: client_transactions clientDateOk_filterStart assms)

lemma company_includes:
  assumes "periodStart now filters \<le> d" and "d \<le> periodEnd now filters"
  shows "iv \<in> set invs \<Longrightarrow> Invoice.date iv = d \<Longrightarrow>
           (d, grandTotal iv, 0, ()) \<in> entryContent ` set (CompanyLedgerData.transactions
              (generateCompanyLedger now customers invs pays thns filters))"
    and "p \<in> set pays \<Longrightarrow> Payment.date p = d \<Longrightarrow>
           (d, Payment.amount p, 0, ()) \<in> entryContent ` set (CompanyLedgerData.transactions
              (generateCompanyLedger now customers invs pays thns filters))"
    and "thn \<in> set thns \<Longrightarrow> TruckHiringNote.date thn = d \<Longrightarrow>
           (d, TruckHiringNote.freightRate thn, 0, ()) \<in> entryContent ` set (CompanyLedgerData.transactions
              (generateCompanyLedger now customers invs pays thns filters))"
proof -
  let ?s = "periodStart now filters" and ?e = "periodEnd now filters"
  let ?C = "entryContent ` set (CompanyLedgerData.transactions
              (generateCompanyLedger now customers invs pays thns filters))"
  have C: "?C = entryContent ` set (companyEntries ?s ?e invs pays thns)"
    by (rule company_contents)
  { assume a: "iv \<in> set invs" "Invoice.date iv = d"
    have "entry d (grandTotal iv) 0 DR \<in> set (companyInvoiceEntries ?s ?e iv)"
      using assms a by (simp add: companyInvoiceEntries_def inPeriod_def)
    then have "entry d (grandTotal iv) 0 DR \<in> set (companyEntries ?s ?e invs pays thns)"
      using invoice_entries_in_company [OF a(1)] by blast
    then have "entryContent (entry d (grandTotal iv) 0 DR) \<in> ?C"
      unfolding C by (rule imageI)
    then show "(d, grandTotal iv, 0, ()) \<in> ?C"
      by (simp add: entryContent_def entry_def) }
  { assume a: "p \<in> set pays" "Payment.date p = d"
    have "entry d (Payment.amount p) 0 DR \<in> set (companyPaymentEntries ?s ?e p)"
      using assms a by (simp add: companyPaymentEntries_def inPeriod_def Let_def)
    then have "entry d (Payment.amount p) 0 DR \<in> set (companyEntries ?s ?e invs pays thns)"
      using payment_entries_in_company [OF a(1)] by blast
    then have "entryContent (entry d (Payment.amount p) 0 DR) \<in> ?C"
      unfolding C by (rule imageI)
    then show "(d, Payment.amount p, 0, ()) \<in> ?C"
      by (simp add: entryContent_def entry_def) }
  { assume a: "thn \<in> set thns" "TruckHiringNote.date thn = d"
    have "entry d (TruckHiringNote.freightRate thn) 0 DR \<in> set (companyThnEntries ?s ?e thn)"
      using assms a by (simp add: companyThnEntries_def inPeriod_def)
    then have "entry d (TruckHiringNote.freightRate thn) 0 DR \<in> set (companyEntries ?s ?e invs pays thns)"
      using thn_entries_in_company [OF a(1)] by blast
    then have "entryContent (entry d (TruckHiringNote.freightRate thn) 0 DR) \<in> ?C"
      unfolding C by (rule imageI)
    then show "(d, TruckHiringNote.freightRate thn, 0, ()) \<in> ?C"
      by (simp add: entryContent_def entry_def) }
qed

lemma client_includes:
  assumes "iv \<in> set invs" and "map_option cust_id (Invoice.customer iv) = Some custId"
      and "clientDateOk filters (Invoice.date iv)"
  shows "(Invoice.date iv, grandTotal iv, 0)
           \<in> (\<lambda>e. (CompanyLedgerEntry.date e, debit e, credit e))
               ` set (ClientLedgerData.transactions
                        (generateClientLedger custId cust invs pays thns filters))"
proof -
  let ?ts = "ClientLedgerData.transactions (generateClientLedger custId cust invs pays thns filters)"
  obtain e where e: "clientInvoiceEntries filters iv = [e]"
    "CompanyLedgerEntry.date e = Invoice.date iv" "debit e = grandTotal iv" "credit e = 0"
    using assms(3) by (simp add: clientInvoiceEntries_def)
  have "e \<in> set (clientEntries custId invs pays filters)"
    using assms(1,2) e(1) by (auto simp: clientEntries_def Let_def)
  then have "entryContent e \<in> entryContent ` set ?ts"
    unfolding client_contents by (rule imageI)
  then obtain e' where e': "e' \<in> set ?ts" "entryContent e' = entryContent e"
    by auto
  have "(\<lambda>e. (CompanyLedgerEntry.date e, debit e, credit e)) e' = (Invoice.date iv, grandTotal iv, 0)"
    using e'(2) e(2-4) by (simp add: entryContent_def)
  with e'(1) show ?thesis by (metis (no_types, lifting) imageI)
qed

lemma client_includes_payment:
  assumes "p \<in> set pays"
      and "(case Payment.customerId p of
              Some c \<Rightarrow> c = custId
            | None \<Rightarrow> map_option cust_id (Payment.customer p) = Some custId)"
      and "clientDateOk filters (Payment.date p)"
  shows "(Payment.date p, 0, Payment.amount p)
           \<in> (\<lambda>e. (CompanyLedgerEntry.date e, debit e, credit e))
               ` set (ClientLedgerData.transactions
                        (generateClientLedger custId cust invs pays thns filters))"
proof -
  let ?ts = "ClientLedgerData.transactions (generateClientLedger custId cust invs pays thns filters)"
  obtain e where e: "clientPaymentEntries filters p = [e]"
    "CompanyLedgerEntry.date e = Payment.date p" "debit e = 0" "credit e = Payment.amount p"
    using assms(3) by (simp add: clientPaymentEntries_def)
  have "e \<in> set (clientEntries custId invs pays filters)"
    using assms(1,2) e(1) by (auto simp: clientEntries_def Let_def)
  then have "entryContent e \<in> entryContent ` set ?ts"
    unfolding client_contents by (rule imageI)
  then obtain e' where e': "e' \<in> set ?ts" "entryContent e' = entryContent e"
    by auto
  have "(\<lambda>e. (CompanyLedgerEntry.date e, debit e, credit e)) e' = (Payment.date p, 0, Payment.amount p)"
    using e'(2) e(2-4) by (simp add: entryContent_def)
  with e'(1) show ?thesis by (metis (no_types, lifting) imageI)
qed

text \<open>
  Claim C9, as amended. \<open>generateCompanyLedger\<close> honours the start date and the end date
  on the date of each source record: its transactions are those of the invoices, payments
  and THNs dated from the start date to the end date, and a record dated on either cutoff
  contributes its entries. \<open>generateClientLedger\<close> honours the start date only: when one
  is given, its transactions are those of the invoices and payments dated on or after it,
  and an invoice or a payment of the customer dated on or after the cutoff is included;
  the end date has no effect. An entry carries the date of its record, except the TDS
  entry of the company ledger, which carries the TDS date. Two filter values that agree on the start date and the end date give the same
  company ledger, and two that agree on the start date give the same client ledger, so
  \<open>customerId\<close>, \<open>voucherType\<close>, \<open>minAmount\<close> and \<open>maxAmount\<close> have no effect.
\<close>

theorem ledger_filters:
  "CompanyLedgerData.transactions (generateCompanyLedger now customers invs pays thns filters)
     = CompanyLedgerData.transactions
         (generateCompanyLedger now customers
            (filter (\<lambda>iv. periodStart now filters \<le> Invoice.date iv
                           \<and> Invoice.date iv \<le> periodEnd now filters) invs)
            (filter (\<lambda>p. periodStart now filters \<le> Payment.date p
                          \<and> Payment.date p \<le> periodEnd now filters) pays)
            (filter (\<lambda>thn. periodStart now filters \<le> TruckHiringNote.date thn
                            \<and> TruckHiringNote.date thn \<le> periodEnd now filters) thns)
            filters)
   \<and> (iv \<in> set invs \<and> periodStart now filters \<le> Invoice.date iv
        \<and> Invoice.date iv \<le> periodEnd now filters \<longrightarrow>
        (Invoice.date iv, grandTotal iv, 0, ())
          \<in> entryContent ` set (CompanyLedgerData.transactions
                (generateCompanyLedger now customers invs pays thns filters)))
   \<and> (p \<in> set pays \<and> periodStart now filters \<le> Payment.date p
        \<and> Payment.date p \<le> periodEnd now filters \<longrightarrow>
        (Payment.date p, Payment.amount p, 0, ())
          \<in> entryContent ` set (CompanyLedgerData.transactions
                (generateCompanyLedger now customers invs pays thns filters)))
   \<and> (thn \<in> set thns \<and> periodStart now filters \<le> TruckHiringNote.date thn
        \<and> TruckHiringNote.date thn \<le> periodEnd now filters \<longrightarrow>
        (TruckHiringNote.date thn, TruckHiringNote.freightRate thn, 0, ())
          \<in> entryContent ` set (CompanyLedgerData.transactions
                (generateCompanyLedger now customers invs pays thns filters)))
   \<and> (filterStart f1 = filterStart f2 \<and> filterEnd f1 = filterEnd f2 \<longrightarrow>
        generateCompanyLedger now customers invs pays thns f1
          = generateCompanyLedger now customers invs pays thns f2)
   \<and> (filterStart filters = Some s \<longrightarrow>
        ClientLedgerData.transactions (generateClientLedger custId cust invs pays thns' filters)
          = ClientLedgerData.transactions
              (generateClientLedger custId cust
                 (filter (\<lambda>iv. s \<le> Invoice.date iv) invs)
                 (filter (\<lambda>p. s \<le> Payment.date p) pays) thns' filters))
   \<and> (iv \<in> set invs \<and> map_option cust_id (Invoice.customer iv) = Some custId
        \<and> filterStart filters = Some s \<and> s \<le> Invoice.date iv \<longrightarrow>
        (Invoice.date iv, grandTotal iv, 0)
          \<in> (\<lambda>e. (CompanyLedgerEntry.date e, debit e, credit e))
              ` set (ClientLedgerData.transactions
                       (generateClientLedger custId cust invs pays thns' filters)))
   \<and> (p \<in> set pays
        \<and> (case Payment.customerId p of
               Some c \<Rightarrow> c = custId
             | None \<Rightarrow> map_option cust_id (Payment.customer p) = Some custId)
        \<and> filterStart filters = Some s \<and> s \<le> Payment.date p \<longrightarrow>
        (Payment.date p, 0, Payment.amount p)
          \<in> (\<lambda>e. (CompanyLedgerEntry.date e, debit e, credit e))
              ` set (ClientLedgerData.transactions
                       (generateClientLedger custId cust invs pays thns' filters)))
   \<and> (filterStart f1 = filterStart f2 \<longrightarrow>
        generateClientLedger custId cust invs pays thns' f1
          = generateClientLedger custId cust invs pays thns' f2)"
proof -
  have c2: "p \<in> set pays
        \<and> (case Payment.customerId p of
               Some c \<Rightarrow> c = custId
             | None \<Rightarrow> map_option cust_id (Payment.customer p) = Some custId)
        \<and> filterStart filters = Some s \<and> s \<le> Payment.date p \<longrightarrow>
        (Payment.date p, 0, Payment.amount p)
          \<in> (\<lambda>e. (CompanyLedgerEntry.date e, debit e, credit e))
              ` set (ClientLedgerData.transactions
                       (generateClientLedger custId cust invs pays thns' filters))"
    using client_includes_payment [of p pays custId filters cust invs thns']
    by (simp add: clientDateOk_filterStart)
  have c1: "iv \<in> set invs \<and> map_option cust_id (Invoice.customer iv) = Some custId
        \<and> filterStart filters = Some s \<and> s \<le> Invoice.date iv \<longrightarrow>
        (Invoice.date iv, grandTotal iv, 0)
          \<in> (\<lambda>e. (CompanyLedgerEntry.date e, debit e, credit e))
              ` set (ClientLedgerData.transactions
                       (generateClientLedger custId cust invs pays thns' filters))"
    using client_includes [of iv invs custId filters cust pays thns']
    by (simp add: clientDateOk_filterStart)
  have i1: "iv \<in> set invs \<and> periodStart now filters \<le> Invoice.date iv
        \<and> Invoice.date iv \<le> periodEnd now filters \<longrightarrow>
        (Invoice.date iv, grandTotal iv, 0, ())
          \<in> entryContent ` set (CompanyLedgerData.transactions
                (generateCompanyLedger now customers invs pays thns filters))"
    using company_includes(1) by blast
  have i2: "p \<in> set pays \<and> periodStart now filters \<le> Payment.date p
        \<and> Payment.date p \<le> periodEnd now filters \<longrightarrow>
        (Payment.date p, Payment.amount p, 0, ())
          \<in> entryContent ` set (CompanyLedgerData.transactions
                (generateCompanyLedger now customers invs pays thns filters))"
    using company_includes(2) by blast
  have i3: "thn \<in> set thns \<and> periodStart now filters \<le> TruckHiringNote.date thn
        \<and> TruckHiringNote.date thn \<le> periodEnd now filters \<longrightarrow>
        (TruckHiringNote.date thn, TruckHiringNote.freightRate thn, 0, ())
          \<in> entryContent ` set (CompanyLedgerData.transactions
                (generateCompanyLedger now customers invs pays thns filters))"
    using company_includes(3) by blast
  show ?thesis
    using company_excludes [of now customers invs pays thns filters]
      company_ignores_filters [of f1 f2 now customers invs pays thns]
      client_excludes [of filters s custId cust invs pays thns']
      client_ignores_filters [of f1 f2 custId cust invs pays thns']
      i1 i2 i3 c1 c2
    by blast
qed

theorem ledger_filters_witness:
  "periodStart jan31 (Some ex_january) = Invoice.date ex_invoice
   \<and> periodStart jan31 (Some ex_january) = Payment.date (ex_payment\<lparr>Payment.date := jan01\<rparr>)
   \<and> periodEnd jan31 (Some ex_january)
       = TruckHiringNote.date (ex_ledger_thn\<lparr>TruckHiringNote.date := jan31\<rparr>)
   \<and> (jan01, 12000, 0, ())
       \<in> entryContent ` set (CompanyLedgerData.transactions
             (generateCompanyLedger jan31 [] [ex_invoice] [ex_payment\<lparr>Payment.date := jan01\<rparr>]
                [ex_ledger_thn\<lparr>TruckHiringNote.date := jan31\<rparr>] (Some ex_january)))
   \<and> (jan01, 5000, 0, ())
       \<in> entryContent ` set (CompanyLedgerData.transactions
             (generateCompanyLedger jan31 [] [ex_invoice] [ex_payment\<lparr>Payment.date := jan01\<rparr>]
                [ex_ledger_thn\<lparr>TruckHiringNote.date := jan31\<rparr>] (Some ex_january)))
   \<and> (jan31, 8000, 0, ())
       \<in> entryContent ` set (CompanyLedgerData.transactions
             (generateCompanyLedger jan31 [] [ex_invoice] [ex_payment\<lparr>Payment.date := jan01\<rparr>]
                [ex_ledger_thn\<lparr>TruckHiringNote.date := jan31\<rparr>] (Some ex_january)))
   \<and> generateCompanyLedger jan31 [] [ex_invoice] [ex_payment\<lparr>Payment.date := jan01\<rparr>]
         [ex_ledger_thn\<lparr>TruckHiringNote.date := jan31\<rparr>] (Some ex_january)
       = generateCompanyLedger jan31 [] [ex_invoice] [ex_payment\<lparr>Payment.date := jan01\<rparr>]
           [ex_ledger_thn\<lparr>TruckHiringNote.date := jan31\<rparr>] (Some ex_january_more)
   \<and> (jan01, 12000, 0)
       \<in> (\<lambda>e. (CompanyLedgerEntry.date e, debit e, credit e))
           ` set (ClientLedgerData.transactions
                    (generateClientLedger ''c1'' ex_customer [ex_invoice]
                       [ex_payment\<lparr>Payment.date := jan01\<rparr>] [] (Some ex_january)))
   \<and> (jan01, 0, 5000)
       \<in> (\<lambda>e. (CompanyLedgerEntry.date e, debit e, credit e))
           ` set (ClientLedgerData.transactions
                    (generateClientLedger ''c1'' ex_customer [ex_invoice]
                       [ex_payment\<lparr>Payment.date := jan01\<rparr>] [] (Some ex_january)))
   \<and> generateClientLedger ''c1'' ex_customer [ex_invoice]
         [ex_payment\<lparr>Payment.date := jan01\<rparr>] [] (Some ex_january)
       = generateClientLedger ''c1'' ex_customer [ex_invoice]
           [ex_payment\<lparr>Payment.date := jan01\<rparr>] [] (Some ex_january_more)"
proof -
  have hyps:
    "periodStart jan31 (Some ex_january) = Invoice.date ex_invoice"
    "periodStart jan31 (Some ex_january) = Payment.date (ex_payment\<lparr>Payment.date := jan01\<rparr>)"
    "periodEnd jan31 (Some ex_january)
       = TruckHiringNote.date (ex_ledger_thn\<lparr>TruckHiringNote.date := jan31\<rparr>)"
    "Invoice.date ex_invoice = jan01" "grandTotal ex_invoice = 12000"
    "Payment.date (ex_payment\<lparr>Payment.date := jan01\<rparr>) = jan01"
    "Payment.amount (ex_payment\<lparr>Payment.date := jan01\<rparr>) = 5000"
    "Payment.customerId (ex_payment\<lparr>Payment.date := jan01\<rparr>) = Some ''c1''"
    "TruckHiringNote.date (ex_ledger_thn\<lparr>TruckHiringNote.date := jan31\<rparr>) = jan31"
    "TruckHiringNote.freightRate (ex_ledger_thn\<lparr>TruckHiringNote.date := jan31\<rparr>) = 8000"
    "jan01 \<le> jan31"
    "map_option cust_id (Invoice.customer ex_invoice) = Some ''c1''"
    "filterStart (Some ex_january) = Some jan01"
    "filterStart (Some ex_january_more) = Some jan01"
    "filterEnd (Some ex_january) = filterEnd (Some ex_january_more)"
    by (simp_all add: ex_ledger_defs filterStart_def filterEnd_def)
  show ?thesis
    using hyps
      ledger_filters
        [of jan31 "[]" "[ex_invoice]" "[ex_payment\<lparr>Payment.date := jan01\<rparr>]"
            "[ex_ledger_thn\<lparr>TruckHiringNote.date := jan31\<rparr>]" "Some ex_january"
            ex_invoice "ex_payment\<lparr>Payment.date := jan01\<rparr>"
            "ex_ledger_thn\<lparr>TruckHiringNote.date := jan31\<rparr>"
            "Some ex_january" "Some ex_january_more" jan01 "''c1''" ex_customer "[]"]
    by auto
qed

text \<open>
  Claim C9 as stated fails twice. In the client ledger, with an end date of 2025-01-01 the
  payment of 2025-01-15 is still among the transactions. In the company ledger for January
  2025, the receipt of 2025-01-15 whose TDS is dated 2024-12-15 yields an entry dated
  2024-12-15, before the start date.
\<close>

theorem ledger_period_counterexample:
  "filterEnd (Some ex_until_jan01) = Some jan01
   \<and> jan01 < Payment.date ex_payment
   \<and> map CompanyLedgerEntry.date
        (ClientLedgerData.transactions
           (generateClientLedger ''c1'' ex_customer [ex_invoice] [ex_payment] []
              (Some ex_until_jan01)))
       = [jan01, Payment.date ex_payment]
   \<and> periodStart jan31 (Some ex_january) = jan01
   \<and> dec15 < jan01
   \<and> map CompanyLedgerEntry.date
        (CompanyLedgerData.transactions
           (generateCompanyLedger jan31 [] [] [ex_early_tds_payment] [] (Some ex_january)))
       = [dec15, jan15, jan15]
   \<and> map credit
        (CompanyLedgerData.transactions
           (generateCompanyLedger jan31 [] [] [ex_early_tds_payment] [] (Some ex_january)))
       = [1000, 0, 10000]"
  by (simp add: ex_ledger_defs filterEnd_def Let_def)

end
